theory Spec2Isabelle
  imports Complex_Main "HOL-Library.Char_ord" "HOL-Library.Sublist" "HOL-Library.Log_Nat"
begin

section \<open>Data model\<close>

text \<open>
  The findings structure of \<^verbatim>\<open>aws_log_review.py\<close>: every analyzer builds a dictionary
  with a fixed set of keys, one of which is always \<^verbatim>\<open>'issues'\<close>, a list of dictionaries
  with the four keys \<^verbatim>\<open>severity\<close>, \<^verbatim>\<open>description\<close>, \<^verbatim>\<open>pci_reference\<close> and
  \<^verbatim>\<open>recommendation\<close>. All four are Python strings; the severity is kept a string, as in
  the code, so that the scorer's lookup with a default stays visible.
\<close>

record issue =
  severity :: string
  description :: string
  pci_reference :: string
  recommendation :: string

text \<open>
  The key \<^verbatim>\<open>'issues'\<close> is common to the five per-service dictionaries; the other keys
  extend it.
\<close>

record service_finding =
  issues :: "issue list"

record cloudtrail_findings = service_finding +
  enabled :: bool
  multi_region :: bool
  log_file_validation :: bool
  s3_bucket :: "string option"

record s3_findings = service_finding +
  buckets_analyzed :: int
  buckets_with_logging :: int
  buckets_without_logging :: "string list"

record cloudwatch_findings = service_finding +
  log_groups :: int
  log_groups_with_retention :: int
  log_groups_without_retention :: "string list"

record rds_findings = service_finding +
  instances :: int
  instances_with_logging :: int
  instances_without_logging :: "string list"

record iam_findings = service_finding +
  credential_reports_enabled :: bool
  access_analyzer_enabled :: bool

text \<open>
  \<^verbatim>\<open>all_findings\<close> as \<^verbatim>\<open>run_analysis\<close> compiles it (lines 444 to 452): five
  per-service dictionaries, the timestamp and the stored total.
\<close>

record findings_report =
  cloudtrail :: cloudtrail_findings
  s3_logging :: s3_findings
  cloudwatch_logs :: cloudwatch_findings
  rds_logging :: rds_findings
  iam_logging :: iam_findings
  timestamp :: string
  total_issues :: int

text \<open>The dictionaries that \<^verbatim>\<open>generate_recommendations\<close> appends.\<close>

record recommendation_entry =
  rec_priority :: string
  rec_category :: string
  rec_title :: string
  rec_description :: string
  rec_pci_reference :: string
  rec_script :: string
  rec_estimated_cost :: string

section \<open>Strings\<close>

text \<open>Python's \<^verbatim>\<open>str(n)\<close> for a length: the decimal digits of a natural number.\<close>

definition digit_char :: "nat \<Rightarrow> char" where
  "digit_char d = char_of (48 + d)"

fun str_of_nat :: "nat \<Rightarrow> string" where
  "str_of_nat n =
     (if n < 10 then [digit_char n] else str_of_nat (n div 10) @ [digit_char (n mod 10)])"

declare str_of_nat.simps [simp del]

definition backslash :: string where
  "backslash = [CHR 0x5C]"

section \<open>Script bodies of the recommendation deriver\<close>

text \<open>
  \<^verbatim>\<open>_generate_cloudtrail_script\<close> and \<^verbatim>\<open>_generate_multi_region_cloudtrail_script\<close> return
  constant texts. In the Python source \<^verbatim>\<open>\\\<close> inside a non-raw literal is one backslash.
\<close>

definition generate_cloudtrail_script :: string where
  \<open>generate_cloudtrail_script =
     ''#!/bin/bash\<newline># Enable CloudTrail\<newline>aws cloudtrail create-trail '' @ backslash @
     ''\<newline>    --name "pci-compliance-trail" '' @ backslash @
     ''\<newline>    --s3-bucket-name "your-log-bucket-name" '' @ backslash @
     ''\<newline>    --is-multi-region-trail '' @ backslash @
     ''\<newline>    --enable-log-file-validation\<newline>\<newline>'' @
     ''aws cloudtrail start-logging --name "pci-compliance-trail"\<newline>\<newline>'' @
     ''echo "CloudTrail enabled successfully"''\<close>

definition generate_multi_region_cloudtrail_script :: string where
  \<open>generate_multi_region_cloudtrail_script =
     ''#!/bin/bash\<newline># Enable multi-region CloudTrail\<newline>aws cloudtrail update-trail '' @
     backslash @
     ''\<newline>    --name "pci-compliance-trail" '' @ backslash @
     ''\<newline>    --is-multi-region-trail\<newline>\<newline>'' @
     ''echo "Multi-region CloudTrail enabled"''\<close>

text \<open>
  \<^verbatim>\<open>_generate_s3_logging_script\<close>: the header, then one block per bucket appended to the
  text by the \<^verbatim>\<open>for\<close> loop, then the closing \<^verbatim>\<open>echo\<close>. The block is the f-string of
  lines 376 to 380 with the bucket name substituted twice.
\<close>

definition s3_script_header :: string where
  "s3_script_header = ''#!/bin/bash\<newline># Enable S3 access logging for buckets\<newline>''"

definition s3_script_block :: "string \<Rightarrow> string" where
  \<open>s3_script_block bucket =
     ''aws s3api put-bucket-logging '' @ backslash @
     ''\<newline>    --bucket "'' @ bucket @ ''" '' @ backslash @
     ''\<newline>    --bucket-logging-status '' @
     '''{"LoggingEnabled": {"TargetBucket": "your-log-bucket-name", "TargetPrefix": "'' @
     bucket @ ''/"}}'\<newline>\<newline>''\<close>

definition s3_script_footer :: string where
  \<open>s3_script_footer = ''echo "S3 access logging enabled for all buckets"''\<close>

fun s3_script_loop :: "string list \<Rightarrow> string \<Rightarrow> string" where
  "s3_script_loop [] script = script"
| "s3_script_loop (bucket # buckets) script =
     s3_script_loop buckets (script @ s3_script_block bucket)"

definition generate_s3_logging_script :: "string list \<Rightarrow> string" where
  "generate_s3_logging_script buckets =
     s3_script_loop buckets s3_script_header @ s3_script_footer"

text \<open>\<^verbatim>\<open>_generate_cloudwatch_retention_script\<close>, the same loop over log group names.\<close>

definition cloudwatch_script_header :: string where
  "cloudwatch_script_header =
     ''#!/bin/bash\<newline># Set retention policies for CloudWatch log groups\<newline>''"

definition cloudwatch_script_block :: "string \<Rightarrow> string" where
  \<open>cloudwatch_script_block log_group =
     ''aws logs put-retention-policy '' @ backslash @
     ''\<newline>    --log-group-name "'' @ log_group @ ''" '' @ backslash @
     ''\<newline>    --retention-in-days 365\<newline>\<newline>''\<close>

fun cloudwatch_script_loop :: "string list \<Rightarrow> string \<Rightarrow> string" where
  "cloudwatch_script_loop [] script = script"
| "cloudwatch_script_loop (log_group # rest) script =
     cloudwatch_script_loop rest (script @ cloudwatch_script_block log_group)"

definition generate_cloudwatch_retention_script :: "string list \<Rightarrow> string" where
  \<open>generate_cloudwatch_retention_script groups =
     cloudwatch_script_loop groups cloudwatch_script_header @
     ''echo "Retention policies set for all log groups"''\<close>

text \<open>\<^verbatim>\<open>_generate_rds_logging_script\<close>, the same loop over instance identifiers.\<close>

definition rds_script_header :: string where
  "rds_script_header =
     ''#!/bin/bash\<newline># Enable CloudWatch logging for RDS instances\<newline>''"

definition rds_script_block :: "string \<Rightarrow> string" where
  \<open>rds_script_block inst =
     ''aws rds modify-db-instance '' @ backslash @
     ''\<newline>    --db-instance-identifier "'' @ inst @ ''" '' @ backslash @
     ''\<newline>    --enable-cloudwatch-logs-exports "error,general,slow-query" '' @ backslash @
     ''\<newline>    --apply-immediately\<newline>\<newline>''\<close>

fun rds_script_loop :: "string list \<Rightarrow> string \<Rightarrow> string" where
  "rds_script_loop [] script = script"
| "rds_script_loop (inst # rest) script =
     rds_script_loop rest (script @ rds_script_block inst)"

definition generate_rds_logging_script :: "string list \<Rightarrow> string" where
  \<open>generate_rds_logging_script insts =
     rds_script_loop insts rds_script_header @
     ''echo "CloudWatch logging enabled for all RDS instances"''\<close>

section \<open>The recommendation deriver\<close>

text \<open>
  \<^verbatim>\<open>generate_recommendations\<close> (lines 281 to 344): five \<^verbatim>\<open>if\<close> statements in a fixed
  order, each appending one dictionary to the list. A Python list is true when it is not
  empty.
\<close>

definition rec_enable_cloudtrail :: recommendation_entry where
  "rec_enable_cloudtrail =
     \<lparr>rec_priority = ''HIGH'', rec_category = ''CloudTrail'',
      rec_title = ''Enable CloudTrail'',
      rec_description = ''Enable CloudTrail for comprehensive API activity logging'',
      rec_pci_reference = ''10.2.1-10.2.7'',
      rec_script = generate_cloudtrail_script,
      rec_estimated_cost = ''Low (CloudTrail is free for first 5GB/month)''\<rparr>"

definition rec_multi_region :: recommendation_entry where
  "rec_multi_region =
     \<lparr>rec_priority = ''MEDIUM'', rec_category = ''CloudTrail'',
      rec_title = ''Enable Multi-Region CloudTrail'',
      rec_description = ''Enable multi-region CloudTrail for comprehensive coverage'',
      rec_pci_reference = ''10.2.1-10.2.7'',
      rec_script = generate_multi_region_cloudtrail_script,
      rec_estimated_cost = ''Low''\<rparr>"

definition rec_s3_logging :: "string list \<Rightarrow> recommendation_entry" where
  "rec_s3_logging buckets =
     \<lparr>rec_priority = ''MEDIUM'', rec_category = ''S3'',
      rec_title = ''Enable S3 Access Logging'',
      rec_description =
        ''Enable access logging for '' @ str_of_nat (length buckets) @ '' S3 buckets'',
      rec_pci_reference = ''10.2.1'',
      rec_script = generate_s3_logging_script buckets,
      rec_estimated_cost = ''Low (S3 access logs are inexpensive)''\<rparr>"

definition rec_cloudwatch_retention :: "string list \<Rightarrow> recommendation_entry" where
  "rec_cloudwatch_retention groups =
     \<lparr>rec_priority = ''MEDIUM'', rec_category = ''CloudWatch'',
      rec_title = ''Set Log Retention Policies'',
      rec_description =
        ''Set retention policies for '' @ str_of_nat (length groups) @ '' log groups'',
      rec_pci_reference = ''10.5.1.2'',
      rec_script = generate_cloudwatch_retention_script groups,
      rec_estimated_cost = ''Low (reduces storage costs)''\<rparr>"

definition rec_rds_logging :: "string list \<Rightarrow> recommendation_entry" where
  "rec_rds_logging insts =
     \<lparr>rec_priority = ''MEDIUM'', rec_category = ''RDS'',
      rec_title = ''Enable RDS CloudWatch Logging'',
      rec_description =
        ''Enable CloudWatch logging for '' @ str_of_nat (length insts) @ '' RDS instances'',
      rec_pci_reference = ''10.2.1'',
      rec_script = generate_rds_logging_script insts,
      rec_estimated_cost = ''Low''\<rparr>"

definition generate_recommendations :: "findings_report \<Rightarrow> recommendation_entry list" where
  "generate_recommendations findings =
     (let recommendations = [];
          recommendations =
            (if \<not> enabled (cloudtrail findings)
             then recommendations @ [rec_enable_cloudtrail] else recommendations);
          recommendations =
            (if \<not> multi_region (cloudtrail findings)
             then recommendations @ [rec_multi_region] else recommendations);
          recommendations =
            (if buckets_without_logging (s3_logging findings) \<noteq> []
             then recommendations @
                  [rec_s3_logging (buckets_without_logging (s3_logging findings))]
             else recommendations);
          recommendations =
            (if log_groups_without_retention (cloudwatch_logs findings) \<noteq> []
             then recommendations @
                  [rec_cloudwatch_retention
                     (log_groups_without_retention (cloudwatch_logs findings))]
             else recommendations);
          recommendations =
            (if instances_without_logging (rds_logging findings) \<noteq> []
             then recommendations @
                  [rec_rds_logging (instances_without_logging (rds_logging findings))]
             else recommendations)
      in recommendations)"

section \<open>Dictionary iteration\<close>

text \<open>
  Both \<^verbatim>\<open>generate_report\<close> and the report generator walk \<^verbatim>\<open>findings.items()\<close> and skip
  the keys \<^verbatim>\<open>'timestamp'\<close> and \<^verbatim>\<open>'total_issues'\<close>. The items are listed in the insertion
  order of \<^verbatim>\<open>run_analysis\<close> (and of \<^verbatim>\<open>create_sample_findings\<close>); of a per-service
  dictionary the loops read only \<^verbatim>\<open>'issues'\<close>. A value that is not a dictionary has no
  \<^verbatim>\<open>get\<close>: reaching it would raise \<^verbatim>\<open>AttributeError\<close>.
\<close>

datatype py_error = AttributeError string | KeyError string | TypeError string | OSError string

datatype item = Service "issue list" | Text string | Number int

definition findings_items :: "findings_report \<Rightarrow> (string \<times> item) list" where
  "findings_items findings =
     [(''cloudtrail'', Service (issues (cloudtrail findings))),
      (''s3_logging'', Service (issues (s3_logging findings))),
      (''cloudwatch_logs'', Service (issues (cloudwatch_logs findings))),
      (''rds_logging'', Service (issues (rds_logging findings))),
      (''iam_logging'', Service (issues (iam_logging findings))),
      (''timestamp'', Text (timestamp findings)),
      (''total_issues'', Number (total_issues findings))]"

definition get_issues :: "item \<Rightarrow> py_error + issue list" where
  "get_issues v = (case v of Service xs \<Rightarrow> Inr xs | _ \<Rightarrow> Inl (AttributeError ''get''))"

section \<open>The console report: issue table and PCI DSS compliance summary\<close>

text \<open>
  \<^verbatim>\<open>generate_report\<close>, lines 524 to 533: the rows of the issue table, with the category
  in upper case. \<^verbatim>\<open>str.upper\<close> on the ASCII keys of the findings dictionary.
\<close>

definition upper_char :: "char \<Rightarrow> char" where
  "upper_char c =
     (if CHR ''a'' \<le> c \<and> c \<le> CHR ''z'' then char_of (of_char c - (32::nat)) else c)"

definition upper :: "string \<Rightarrow> string" where
  "upper s = map upper_char s"

record report_issue =
  ri_category :: string
  ri_severity :: string
  ri_description :: string
  ri_pci_reference :: string

fun append_category_issues :: "string \<Rightarrow> issue list \<Rightarrow> report_issue list \<Rightarrow> report_issue list" where
  "append_category_issues category [] all_issues = all_issues"
| "append_category_issues category (i # rest) all_issues =
     append_category_issues category rest
       (all_issues @
        [\<lparr>ri_category = upper category, ri_severity = severity i,
          ri_description = description i, ri_pci_reference = pci_reference i\<rparr>])"

fun collect_report_issues ::
  "(string \<times> item) list \<Rightarrow> report_issue list \<Rightarrow> py_error + report_issue list" where
  "collect_report_issues [] all_issues = Inr all_issues"
| "collect_report_issues ((category, v) # rest) all_issues =
     (if category \<noteq> ''timestamp'' \<and> category \<noteq> ''total_issues''
      then (case get_issues v of
              Inl e \<Rightarrow> Inl e
            | Inr xs \<Rightarrow>
                collect_report_issues rest (append_category_issues category xs all_issues))
      else collect_report_issues rest all_issues)"

text \<open>
  The static table of \<^verbatim>\<open>generate_report\<close> (lines 578 to 589) and of
  \<^verbatim>\<open>get_pci_requirements\<close>: ten clauses, in the order of the dictionary literal.
\<close>

definition pci_requirements :: "(string \<times> string) list" where
  "pci_requirements =
     [(''10.2.1'', ''All individual access to cardholder data''),
      (''10.2.2'',
       ''All actions taken by any individual with root or administrative privileges''),
      (''10.2.3'', ''Access to all audit trails''),
      (''10.2.4'', ''Invalid logical access attempts''),
      (''10.2.5'', ''Use of identification and authentication mechanisms''),
      (''10.2.6'', ''Initialization of the audit logs''),
      (''10.2.7'', ''Creation and deletion of system-level objects''),
      (''10.5.1.2'', ''Retain audit trail history for at least one year''),
      (''10.5.2'', ''Protect audit trail files from unauthorized modifications''),
      (''10.5.3'', ''Promptly back up audit trail files to a centralized log server'')]"

text \<open>
  The status cell of a row (line 598): \<^verbatim>\<open>Compliant\<close> when the clause id is not in the
  list of the issues' \<^verbatim>\<open>pci_reference\<close> values, \<^verbatim>\<open>Non-Compliant\<close> otherwise. Python's
  \<^verbatim>\<open>in\<close> on a list of strings is equality with an element.
\<close>

datatype status = Compliant | NonCompliant

definition requirement_status :: "report_issue list \<Rightarrow> string \<Rightarrow> status" where
  "requirement_status all_issues req =
     (if req \<notin> set (map ri_pci_reference all_issues) then Compliant else NonCompliant)"

definition compliance_rows :: "report_issue list \<Rightarrow> (string \<times> string \<times> status) list" where
  "compliance_rows all_issues =
     map (\<lambda>(req, desc). (req, desc, requirement_status all_issues req)) pci_requirements"

definition compliance_table :: "findings_report \<Rightarrow> py_error + (string \<times> string \<times> status) list" where
  "compliance_table findings =
     (case collect_report_issues (findings_items findings) [] of
        Inl e \<Rightarrow> Inl e
      | Inr all_issues \<Rightarrow> Inr (compliance_rows all_issues))"

section \<open>The report generator\<close>

text \<open>
  \<^verbatim>\<open>get_non_compliant_requirements\<close> (\<^verbatim>\<open>report_generator.py\<close>, lines 88 to 105): all
  issues of all categories, then the distinct non-empty references in first-seen order.
\<close>

fun collect_issues :: "(string \<times> item) list \<Rightarrow> issue list \<Rightarrow> py_error + issue list" where
  "collect_issues [] all_issues = Inr all_issues"
| "collect_issues ((category, v) # rest) all_issues =
     (if category \<notin> set [''timestamp'', ''total_issues'']
      then (case get_issues v of
              Inl e \<Rightarrow> Inl e
            | Inr xs \<Rightarrow> collect_issues rest (all_issues @ xs))
      else collect_issues rest all_issues)"

fun map_issues_to_requirements :: "issue list \<Rightarrow> string list \<Rightarrow> string list" where
  "map_issues_to_requirements [] non_compliant = non_compliant"
| "map_issues_to_requirements (i # rest) non_compliant =
     (let pci_ref = pci_reference i in
      if pci_ref \<noteq> [] \<and> pci_ref \<notin> set non_compliant
      then map_issues_to_requirements rest (non_compliant @ [pci_ref])
      else map_issues_to_requirements rest non_compliant)"

definition get_non_compliant_requirements :: "findings_report \<Rightarrow> py_error + string list" where
  "get_non_compliant_requirements findings =
     (case collect_issues (findings_items findings) [] of
        Inl e \<Rightarrow> Inl e
      | Inr all_issues \<Rightarrow> Inr (map_issues_to_requirements all_issues []))"

section \<open>Python floats\<close>

text \<open>
  \<^verbatim>\<open>calculate_compliance_score\<close> computes in Python floats: \<^verbatim>\<open>/\<close> on two integers is
  true division, and the product and the difference that follow are float operations.
  A finite float is the rational number it denotes; every operation returns the exact
  result rounded to 53 significant bits, to nearest, ties to even. The exponent range is
  not bounded: the values of the scorer lie between \<open>1/64\<close> and a small multiple of the
  number of issues, far from the subnormal and the overflow range of a double for any
  list a Python process can hold.
\<close>

definition round_half_even :: "rat \<Rightarrow> int" where
  "round_half_even y =
     (let n = \<lfloor>y\<rfloor>; r = y - of_int n in
      if r < 1 / 2 then n else if 1 / 2 < r then n + 1 else if even n then n else n + 1)"

definition pow2 :: "int \<Rightarrow> rat" where
  "pow2 e = (if 0 \<le> e then 2 ^ nat e else 1 / 2 ^ nat (- e))"

text \<open>For \<open>0 < x\<close>, the exponent \<open>e\<close> with \<open>2\<^sup>e \<le> x < 2\<^sup>e\<^sup>+\<^sup>1\<close>.\<close>

definition binade :: "rat \<Rightarrow> int" where
  "binade x = (if 1 \<le> x then bitlen \<lfloor>x\<rfloor> - 1 else - bitlen (\<lceil>1 / x\<rceil> - 1))"

definition round_positive :: "rat \<Rightarrow> rat" where
  "round_positive x =
     (let ulp = pow2 (binade x - 52) in of_int (round_half_even (x / ulp)) * ulp)"

definition round_to_double :: "rat \<Rightarrow> rat" where
  "round_to_double x =
     (if x = 0 then 0 else if 0 < x then round_positive x else - round_positive (- x))"

definition float_truediv :: "int \<Rightarrow> int \<Rightarrow> rat" where
  "float_truediv a b = round_to_double (of_int a / of_int b)"

definition float_mul :: "rat \<Rightarrow> rat \<Rightarrow> rat" where
  "float_mul a b = round_to_double (a * b)"

definition float_sub :: "rat \<Rightarrow> rat \<Rightarrow> rat" where
  "float_sub a b = round_to_double (a - b)"

text \<open>
  \<^verbatim>\<open>max(0, s)\<close> returns its first argument unless the second is greater, and
  \<^verbatim>\<open>int(s)\<close> truncates towards zero.
\<close>

definition py_max :: "rat \<Rightarrow> rat \<Rightarrow> rat" where
  "py_max a b = (if a < b then b else a)"

definition py_int :: "rat \<Rightarrow> int" where
  "py_int v = (if 0 \<le> v then \<lfloor>v\<rfloor> else \<lceil>v\<rceil>)"

section \<open>The compliance scorer\<close>

text \<open>
  \<^verbatim>\<open>calculate_compliance_score\<close> (\<^verbatim>\<open>report_generator.py\<close>, lines 29 to 52). The weight
  of a severity is \<^verbatim>\<open>severity_weights.get(severity, 1)\<close>.
\<close>

definition severity_weights :: "(string \<times> int) list" where
  "severity_weights = [(''HIGH'', 3), (''MEDIUM'', 2), (''LOW'', 1)]"

definition severity_weight :: "string \<Rightarrow> int" where
  "severity_weight s = (case map_of severity_weights s of Some w \<Rightarrow> w | None \<Rightarrow> 1)"

fun weigh_issues :: "issue list \<Rightarrow> int \<Rightarrow> int" where
  "weigh_issues [] weighted_issues = weighted_issues"
| "weigh_issues (i # rest) weighted_issues =
     weigh_issues rest (weighted_issues + severity_weight (severity i))"

fun weigh_categories :: "(string \<times> item) list \<Rightarrow> int \<Rightarrow> py_error + int" where
  "weigh_categories [] weighted_issues = Inr weighted_issues"
| "weigh_categories ((category, v) # rest) weighted_issues =
     (if category \<notin> set [''timestamp'', ''total_issues'']
      then (case get_issues v of
              Inl e \<Rightarrow> Inl e
            | Inr xs \<Rightarrow> weigh_categories rest (weigh_issues xs weighted_issues))
      else weigh_categories rest weighted_issues)"

definition max_possible_issues :: int where
  "max_possible_issues = 50"

definition score_of_weight :: "int \<Rightarrow> int" where
  "score_of_weight weighted_issues =
     py_int (py_max 0
       (float_sub 100 (float_mul (float_truediv weighted_issues max_possible_issues) 100)))"

definition calculate_compliance_score :: "findings_report \<Rightarrow> py_error + int" where
  "calculate_compliance_score findings =
     (case weigh_categories (findings_items findings) 0 of
        Inl e \<Rightarrow> Inl e
      | Inr weighted_issues \<Rightarrow> Inr (score_of_weight weighted_issues))"

section \<open>The sample findings\<close>

text \<open>
  \<^verbatim>\<open>create_sample_findings\<close> of \<^verbatim>\<open>example_usage.py\<close> (lines 11 to 129). The timestamp
  is \<^verbatim>\<open>datetime.now().isoformat()\<close>, taken as a parameter.
\<close>

definition sample_s3_issue :: "string \<Rightarrow> issue" where
  "sample_s3_issue b =
     \<lparr>severity = ''MEDIUM'',
      description = ''S3 bucket '' @ b @ '' does not have access logging enabled'',
      pci_reference = ''10.2.1'',
      recommendation = ''Enable access logging for bucket '' @ b\<rparr>"

definition sample_cloudwatch_issue :: "string \<Rightarrow> issue" where
  "sample_cloudwatch_issue g =
     \<lparr>severity = ''MEDIUM'',
      description = ''CloudWatch Log Group '' @ g @ '' has no retention policy'',
      pci_reference = ''10.5.1.2'',
      recommendation = ''Set retention policy for log group '' @ g\<rparr>"

definition sample_rds_issue :: "string \<Rightarrow> issue" where
  "sample_rds_issue d =
     \<lparr>severity = ''MEDIUM'',
      description = ''RDS instance '' @ d @ '' does not have CloudWatch logging enabled'',
      pci_reference = ''10.2.1'',
      recommendation = ''Enable CloudWatch logging for RDS instance '' @ d\<rparr>"

definition create_sample_findings :: "string \<Rightarrow> findings_report" where
  "create_sample_findings now =
     \<lparr>cloudtrail =
        \<lparr>issues =
           [\<lparr>severity = ''HIGH'', description = ''No CloudTrail trails found'',
             pci_reference = ''10.2.1-10.2.7'',
             recommendation = ''Enable CloudTrail for API activity logging''\<rparr>],
         enabled = False, multi_region = False, log_file_validation = False,
         s3_bucket = None\<rparr>,
      s3_logging =
        \<lparr>issues = map sample_s3_issue [''bucket1'', ''bucket2'', ''bucket3''],
         buckets_analyzed = 5, buckets_with_logging = 2,
         buckets_without_logging = [''bucket1'', ''bucket2'', ''bucket3'']\<rparr>,
      cloudwatch_logs =
        \<lparr>issues =
           map sample_cloudwatch_issue
             [''/aws/lambda/app1'', ''/aws/lambda/app2'', ''/aws/rds/instance1'',
              ''/aws/rds/instance2'', ''/aws/ec2/security''],
         log_groups = 8, log_groups_with_retention = 3,
         log_groups_without_retention =
           [''/aws/lambda/app1'', ''/aws/lambda/app2'', ''/aws/rds/instance1'',
            ''/aws/rds/instance2'', ''/aws/ec2/security'']\<rparr>,
      rds_logging =
        \<lparr>issues = map sample_rds_issue [''db-instance-1'', ''db-instance-2''],
         instances = 3, instances_with_logging = 1,
         instances_without_logging = [''db-instance-1'', ''db-instance-2'']\<rparr>,
      iam_logging =
        \<lparr>issues =
           [\<lparr>severity = ''MEDIUM'', description = ''IAM credential reports not enabled'',
             pci_reference = ''10.2.1'',
             recommendation = ''Enable IAM credential reports for access monitoring''\<rparr>,
            \<lparr>severity = ''MEDIUM'', description = ''IAM Access Analyzer not enabled'',
             pci_reference = ''10.2.1'',
             recommendation = ''Enable IAM Access Analyzer for policy analysis''\<rparr>],
         credential_reports_enabled = False, access_analyzer_enabled = False\<rparr>,
      timestamp = now,
      total_issues = 12\<rparr>"

text \<open>
  The issues of a report, service by service in the order of the dictionary: the list the
  statements below speak about.
\<close>

definition issues_of_report :: "findings_report \<Rightarrow> issue list" where
  "issues_of_report findings =
     issues (cloudtrail findings) @ issues (s3_logging findings) @
     issues (cloudwatch_logs findings) @ issues (rds_logging findings) @
     issues (iam_logging findings)"

section \<open>Reading a generated script\<close>

text \<open>
  The lines of a text, split at the newline character (Python's
  \<^verbatim>\<open>text.split('\n')\<close>), and the lines that start with a given command.
\<close>

definition newline :: char where
  "newline = CHR 0x0A"

definition lines_of :: "string \<Rightarrow> string list" where
  "lines_of text =
     foldr (\<lambda>c ls. if c = newline then [] # ls else (c # hd ls) # tl ls) text [[]]"

definition lines_starting :: "string \<Rightarrow> string \<Rightarrow> string list" where
  "lines_starting cmd text = filter (prefix cmd) (lines_of text)"

text \<open>The second line of a block of the S3 script, which names the bucket.\<close>

definition s3_bucket_line :: "string \<Rightarrow> string" where
  \<open>s3_bucket_line bucket = ''    --bucket "'' @ bucket @ ''" '' @ backslash\<close>

text \<open>The first and the third line of a block of the S3 script.\<close>

definition s3_command_line :: string where
  "s3_command_line = ''aws s3api put-bucket-logging '' @ backslash"

definition s3_status_line :: "string \<Rightarrow> string" where
  \<open>s3_status_line bucket =
     ''    --bucket-logging-status '' @
     '''{"LoggingEnabled": {"TargetBucket": "your-log-bucket-name", "TargetPrefix": "'' @
     bucket @ ''/"}}'' @ [CHR 0x27]\<close>

section \<open>Adding an issue to a report\<close>

text \<open>
  The report with one more issue in the list of the named service, at position \<open>n\<close> (at
  the end when the list is shorter, as \<^verbatim>\<open>list.insert\<close> does); a name that is not one of
  the five services leaves the report as it is.
\<close>

definition insert_at :: "nat \<Rightarrow> 'a \<Rightarrow> 'a list \<Rightarrow> 'a list" where
  "insert_at n x xs = take n xs @ x # drop n xs"

definition insert_issue :: "string \<Rightarrow> nat \<Rightarrow> issue \<Rightarrow> findings_report \<Rightarrow> findings_report" where
  "insert_issue service n i findings =
     (if service = ''cloudtrail''
      then findings\<lparr>cloudtrail :=
             (cloudtrail findings)\<lparr>issues := insert_at n i (issues (cloudtrail findings))\<rparr>\<rparr>
      else if service = ''s3_logging''
      then findings\<lparr>s3_logging :=
             (s3_logging findings)\<lparr>issues := insert_at n i (issues (s3_logging findings))\<rparr>\<rparr>
      else if service = ''cloudwatch_logs''
      then findings\<lparr>cloudwatch_logs :=
             (cloudwatch_logs findings)\<lparr>issues :=
                insert_at n i (issues (cloudwatch_logs findings))\<rparr>\<rparr>
      else if service = ''rds_logging''
      then findings\<lparr>rds_logging :=
             (rds_logging findings)\<lparr>issues := insert_at n i (issues (rds_logging findings))\<rparr>\<rparr>
      else if service = ''iam_logging''
      then findings\<lparr>iam_logging :=
             (iam_logging findings)\<lparr>issues := insert_at n i (issues (iam_logging findings))\<rparr>\<rparr>
      else findings)"

text \<open>The report with every issue list emptied.\<close>

definition without_issues :: "findings_report \<Rightarrow> findings_report" where
  "without_issues findings =
     findings\<lparr>cloudtrail := (cloudtrail findings)\<lparr>issues := []\<rparr>,
              s3_logging := (s3_logging findings)\<lparr>issues := []\<rparr>,
              cloudwatch_logs := (cloudwatch_logs findings)\<lparr>issues := []\<rparr>,
              rds_logging := (rds_logging findings)\<lparr>issues := []\<rparr>,
              iam_logging := (iam_logging findings)\<lparr>issues := []\<rparr>\<rparr>"

text \<open>The weighted issue count of a report: the sum the statements below speak about.\<close>

definition weighted_issue_sum :: "findings_report \<Rightarrow> int" where
  "weighted_issue_sum findings =
     (\<Sum>i\<leftarrow>issues_of_report findings. severity_weight (severity i))"

section \<open>The AWS probes\<close>

text \<open>
  The analyzers of \<^verbatim>\<open>aws_log_review.py\<close> call the AWS clients; every call either returns
  a payload or raises. An exception is an instance of \<^verbatim>\<open>Exception\<close> with a class name
  and the text \<^verbatim>\<open>str(e)\<close>. Of a payload the model keeps the keys the analyzers read; a
  key read with \<^verbatim>\<open>get\<close> and tested for truth is a Boolean or an option.
\<close>

datatype py_exception = PyException (exc_class: string) (exc_text: string)

record trail =
  S3BucketName :: string
  IsMultiRegionTrail :: bool
  LogFileValidationEnabled :: bool

record log_group =
  logGroupName :: string
  retentionInDays :: "int option"

record db_instance =
  DBInstanceIdentifier :: string
  EnableCloudwatchLogsExports :: "string list option"

text \<open>
  The outcome of every probe: \<^verbatim>\<open>list_trails\<close> gives the names of \<^verbatim>\<open>trails['Trails']\<close>,
  \<^verbatim>\<open>get_trail_status\<close> the truth of \<^verbatim>\<open>IsLogging\<close>, \<^verbatim>\<open>get_bucket_logging\<close> whether
  \<^verbatim>\<open>LoggingEnabled\<close> is a key of the answer, \<^verbatim>\<open>list_access_analyzers\<close> the list under
  \<^verbatim>\<open>analyzers\<close>. A probe that the client does not have raises too: reading the attribute
  raises \<^verbatim>\<open>AttributeError\<close>. That is so for \<^verbatim>\<open>describe_log_groups\<close> on the client built at
  line 29, which is the client of the service \<^verbatim>\<open>cloudwatch\<close> and not of \<^verbatim>\<open>logs\<close>, and for
  \<^verbatim>\<open>list_access_analyzers\<close> on the client of \<^verbatim>\<open>iam\<close>.

  \<^verbatim>\<open>NoSuchBucketLoggingConfiguration\<close> is the outcome of evaluating
  \<^verbatim>\<open>self.s3.exceptions.NoSuchBucketLoggingConfiguration\<close> at line 132: an exception class,
  given by its instances, or the exception that reading the attribute raises. The S3
  client defines no exception of that name and its \<^verbatim>\<open>exceptions\<close> object raises
  \<^verbatim>\<open>AttributeError\<close> for a name it does not know, so in a run of the program the outcome
  is that exception.
\<close>

record aws =
  list_trails :: "py_exception + string list"
  get_trail :: "string \<Rightarrow> py_exception + trail"
  get_trail_status :: "string \<Rightarrow> py_exception + bool"
  list_buckets :: "py_exception + string list"
  get_bucket_logging :: "string \<Rightarrow> py_exception + bool"
  NoSuchBucketLoggingConfiguration :: "py_exception + (py_exception \<Rightarrow> bool)"
  describe_log_groups :: "py_exception + log_group list"
  describe_db_instances :: "py_exception + db_instance list"
  generate_credential_report :: "py_exception + unit"
  list_access_analyzers :: "py_exception + string list"

text \<open>The calls an analyzer makes, in order: the trace of a run.\<close>

datatype call =
  ListTrails | GetTrail string | GetTrailStatus string
  | ListBuckets | GetBucketLogging string
  | DescribeLogGroups | DescribeDBInstances
  | GenerateCredentialReport | ListAccessAnalyzers

text \<open>The exception a call raises in an environment, if it raises.\<close>

definition raised :: "py_exception + 'a \<Rightarrow> py_exception option" where
  "raised r = (case r of Inl e \<Rightarrow> Some e | Inr _ \<Rightarrow> None)"

fun outcome_of :: "aws \<Rightarrow> call \<Rightarrow> py_exception option" where
  "outcome_of env ListTrails = raised (list_trails env)"
| "outcome_of env (GetTrail name) = raised (get_trail env name)"
| "outcome_of env (GetTrailStatus name) = raised (get_trail_status env name)"
| "outcome_of env ListBuckets = raised (list_buckets env)"
| "outcome_of env (GetBucketLogging name) = raised (get_bucket_logging env name)"
| "outcome_of env DescribeLogGroups = raised (describe_log_groups env)"
| "outcome_of env DescribeDBInstances = raised (describe_db_instances env)"
| "outcome_of env GenerateCredentialReport = raised (generate_credential_report env)"
| "outcome_of env ListAccessAnalyzers = raised (list_access_analyzers env)"

section \<open>The finding normalizer\<close>

text \<open>\<^verbatim>\<open>findings['issues'].append(...)\<close>, for any of the five dictionaries.\<close>

definition append_issue :: "issue \<Rightarrow> 'a service_finding_scheme \<Rightarrow> 'a service_finding_scheme" where
  "append_issue i findings = findings\<lparr>issues := issues findings @ [i]\<rparr>"

text \<open>
  The issue of an \<^verbatim>\<open>except Exception as e\<close> handler: always HIGH, the description
  \<^verbatim>\<open>f'Error analyzing {service}: {str(e)}'\<close>.
\<close>

definition error_issue :: "string \<Rightarrow> string \<Rightarrow> string \<Rightarrow> py_exception \<Rightarrow> issue" where
  "error_issue service ref advice e =
     \<lparr>severity = ''HIGH'',
      description = ''Error analyzing '' @ service @ '': '' @ exc_text e,
      pci_reference = ref,
      recommendation = advice\<rparr>"

subsection \<open>CloudTrail\<close>

definition no_trails_issue :: issue where
  "no_trails_issue =
     \<lparr>severity = ''HIGH'', description = ''No CloudTrail trails found'',
      pci_reference = ''10.2.1-10.2.7'',
      recommendation = ''Enable CloudTrail for API activity logging''\<rparr>"

definition no_validation_issue :: "string \<Rightarrow> issue" where
  "no_validation_issue name =
     \<lparr>severity = ''MEDIUM'',
      description = ''Log file validation not enabled for trail '' @ name,
      pci_reference = ''10.5.2'',
      recommendation = ''Enable log file validation for integrity checking''\<rparr>"

definition not_logging_issue :: "string \<Rightarrow> issue" where
  "not_logging_issue name =
     \<lparr>severity = ''HIGH'',
      description = ''CloudTrail '' @ name @ '' is not logging'',
      pci_reference = ''10.2.1-10.2.7'',
      recommendation = ''Enable logging for CloudTrail''\<rparr>"

definition cloudtrail_error_issue :: "py_exception \<Rightarrow> issue" where
  "cloudtrail_error_issue e =
     error_issue ''CloudTrail'' ''10.2.1-10.2.7''
       ''Check CloudTrail permissions and configuration'' e"

definition cloudtrail_initial :: cloudtrail_findings where
  "cloudtrail_initial =
     \<lparr>issues = [], enabled = False, multi_region = False, log_file_validation = False,
      s3_bucket = None\<rparr>"

text \<open>
  The \<^verbatim>\<open>for trail in trails['Trails']\<close> loop (lines 63 to 89). It returns the findings
  and the trace as they stand when the loop ends or a call raises, and the exception
  raised, if any.
\<close>

fun cloudtrail_loop ::
  "aws \<Rightarrow> string list \<Rightarrow> cloudtrail_findings \<Rightarrow> call list \<Rightarrow>
   cloudtrail_findings \<times> call list \<times> py_exception option" where
  "cloudtrail_loop env [] findings trace = (findings, trace, None)"
| "cloudtrail_loop env (name # rest) findings trace =
     (case get_trail env name of
        Inl e \<Rightarrow> (findings, trace @ [GetTrail name], Some e)
      | Inr trail_info \<Rightarrow>
          (case get_trail_status env name of
             Inl e \<Rightarrow> (findings, trace @ [GetTrail name, GetTrailStatus name], Some e)
           | Inr is_logging \<Rightarrow>
               if is_logging
               then cloudtrail_loop env rest
                      ((if LogFileValidationEnabled trail_info
                        then (\<lambda>f. f\<lparr>log_file_validation := True\<rparr>)
                        else append_issue (no_validation_issue name))
                       ((if IsMultiRegionTrail trail_info
                         then (\<lambda>f. f\<lparr>multi_region := True\<rparr>) else (\<lambda>f. f))
                        (findings\<lparr>enabled := True,
                                  s3_bucket := Some (S3BucketName trail_info)\<rparr>)))
                      (trace @ [GetTrail name, GetTrailStatus name])
               else cloudtrail_loop env rest
                      (append_issue (not_logging_issue name) findings)
                      (trace @ [GetTrail name, GetTrailStatus name])))"

definition analyze_cloudtrail :: "aws \<Rightarrow> cloudtrail_findings \<times> call list" where
  "analyze_cloudtrail env =
     (case list_trails env of
        Inl e \<Rightarrow> (append_issue (cloudtrail_error_issue e) cloudtrail_initial, [ListTrails])
      | Inr trails \<Rightarrow>
          if trails = []
          then (append_issue no_trails_issue cloudtrail_initial, [ListTrails])
          else (case cloudtrail_loop env trails cloudtrail_initial [ListTrails] of
                  (findings, trace, None) \<Rightarrow> (findings, trace)
                | (findings, trace, Some e) \<Rightarrow>
                    (append_issue (cloudtrail_error_issue e) findings, trace)))"

subsection \<open>S3 access logging\<close>

definition s3_issue :: "string \<Rightarrow> issue" where
  "s3_issue name =
     \<lparr>severity = ''MEDIUM'',
      description = ''S3 bucket '' @ name @ '' does not have access logging enabled'',
      pci_reference = ''10.2.1'',
      recommendation = ''Enable access logging for bucket '' @ name\<rparr>"

definition s3_error_issue :: "py_exception \<Rightarrow> issue" where
  "s3_error_issue e =
     error_issue ''S3 logging'' ''10.2.1'' ''Check S3 permissions and configuration'' e"

definition s3_initial :: s3_findings where
  "s3_initial =
     \<lparr>issues = [], buckets_analyzed = 0, buckets_with_logging = 0,
      buckets_without_logging = []\<rparr>"

definition without_logging :: "string \<Rightarrow> s3_findings \<Rightarrow> s3_findings" where
  "without_logging name findings =
     append_issue (s3_issue name)
       (findings\<lparr>buckets_without_logging := buckets_without_logging findings @ [name]\<rparr>)"

text \<open>
  The \<^verbatim>\<open>for bucket in buckets['Buckets']\<close> loop (lines 115 to 139). When
  \<^verbatim>\<open>get_bucket_logging\<close> raises, the expression of the \<^verbatim>\<open>except\<close> clause of line 132 is
  evaluated. If that raises, its exception leaves the loop in place of the one of the
  probe. If it gives a class, the handler runs for an instance of the class, and any
  other exception of the probe leaves the loop.
\<close>

fun s3_loop ::
  "aws \<Rightarrow> string list \<Rightarrow> s3_findings \<Rightarrow> call list \<Rightarrow>
   s3_findings \<times> call list \<times> py_exception option" where
  "s3_loop env [] findings trace = (findings, trace, None)"
| "s3_loop env (name # rest) findings trace =
     (case get_bucket_logging env name of
        Inr logging_enabled \<Rightarrow>
          if logging_enabled
          then s3_loop env rest
                 (findings\<lparr>buckets_analyzed := buckets_analyzed findings + 1,
                           buckets_with_logging := buckets_with_logging findings + 1\<rparr>)
                 (trace @ [GetBucketLogging name])
          else s3_loop env rest
                 (without_logging name
                    (findings\<lparr>buckets_analyzed := buckets_analyzed findings + 1\<rparr>))
                 (trace @ [GetBucketLogging name])
      | Inl e \<Rightarrow>
          (case NoSuchBucketLoggingConfiguration env of
             Inl attribute_error \<Rightarrow>
               (findings\<lparr>buckets_analyzed := buckets_analyzed findings + 1\<rparr>,
                trace @ [GetBucketLogging name], Some attribute_error)
           | Inr is_instance \<Rightarrow>
               if is_instance e
               then s3_loop env rest
                      (without_logging name
                         (findings\<lparr>buckets_analyzed := buckets_analyzed findings + 1\<rparr>))
                      (trace @ [GetBucketLogging name])
               else (findings\<lparr>buckets_analyzed := buckets_analyzed findings + 1\<rparr>,
                     trace @ [GetBucketLogging name], Some e)))"

definition analyze_s3_logging :: "aws \<Rightarrow> s3_findings \<times> call list" where
  "analyze_s3_logging env =
     (case list_buckets env of
        Inl e \<Rightarrow> (append_issue (s3_error_issue e) s3_initial, [ListBuckets])
      | Inr buckets \<Rightarrow>
          (case s3_loop env buckets s3_initial [ListBuckets] of
             (findings, trace, None) \<Rightarrow> (findings, trace)
           | (findings, trace, Some e) \<Rightarrow> (append_issue (s3_error_issue e) findings, trace)))"

subsection \<open>CloudWatch Logs\<close>

definition cloudwatch_issue :: "string \<Rightarrow> issue" where
  "cloudwatch_issue name =
     \<lparr>severity = ''MEDIUM'',
      description = ''CloudWatch Log Group '' @ name @ '' has no retention policy'',
      pci_reference = ''10.5.1.2'',
      recommendation = ''Set retention policy for log group '' @ name\<rparr>"

definition cloudwatch_error_issue :: "py_exception \<Rightarrow> issue" where
  "cloudwatch_error_issue e =
     error_issue ''CloudWatch Logs'' ''10.2.1''
       ''Check CloudWatch Logs permissions and configuration'' e"

definition cloudwatch_initial :: cloudwatch_findings where
  "cloudwatch_initial =
     \<lparr>issues = [], log_groups = 0, log_groups_with_retention = 0,
      log_groups_without_retention = []\<rparr>"

fun cloudwatch_loop :: "log_group list \<Rightarrow> cloudwatch_findings \<Rightarrow> cloudwatch_findings" where
  "cloudwatch_loop [] findings = findings"
| "cloudwatch_loop (g # rest) findings =
     (if retentionInDays g \<noteq> None
      then cloudwatch_loop rest
             (findings\<lparr>log_groups := log_groups findings + 1,
                       log_groups_with_retention := log_groups_with_retention findings + 1\<rparr>)
      else cloudwatch_loop rest
             (append_issue (cloudwatch_issue (logGroupName g))
                (findings\<lparr>log_groups := log_groups findings + 1,
                          log_groups_without_retention :=
                            log_groups_without_retention findings @ [logGroupName g]\<rparr>)))"

definition analyze_cloudwatch_logs :: "aws \<Rightarrow> cloudwatch_findings \<times> call list" where
  "analyze_cloudwatch_logs env =
     (case describe_log_groups env of
        Inl e \<Rightarrow>
          (append_issue (cloudwatch_error_issue e) cloudwatch_initial, [DescribeLogGroups])
      | Inr groups \<Rightarrow> (cloudwatch_loop groups cloudwatch_initial, [DescribeLogGroups]))"

subsection \<open>RDS\<close>

definition rds_issue :: "string \<Rightarrow> issue" where
  "rds_issue name =
     \<lparr>severity = ''MEDIUM'',
      description = ''RDS instance '' @ name @ '' does not have CloudWatch logging enabled'',
      pci_reference = ''10.2.1'',
      recommendation = ''Enable CloudWatch logging for RDS instance '' @ name\<rparr>"

definition rds_error_issue :: "py_exception \<Rightarrow> issue" where
  "rds_error_issue e =
     error_issue ''RDS logging'' ''10.2.1'' ''Check RDS permissions and configuration'' e"

definition rds_initial :: rds_findings where
  "rds_initial =
     \<lparr>issues = [], instances = 0, instances_with_logging = 0,
      instances_without_logging = []\<rparr>"

text \<open>\<^verbatim>\<open>instance.get('EnableCloudwatchLogsExports')\<close> is true for a non-empty list.\<close>

definition has_log_exports :: "db_instance \<Rightarrow> bool" where
  "has_log_exports d =
     (case EnableCloudwatchLogsExports d of None \<Rightarrow> False | Some xs \<Rightarrow> xs \<noteq> [])"

fun rds_loop :: "db_instance list \<Rightarrow> rds_findings \<Rightarrow> rds_findings" where
  "rds_loop [] findings = findings"
| "rds_loop (d # rest) findings =
     (if has_log_exports d
      then rds_loop rest
             (findings\<lparr>instances := instances findings + 1,
                       instances_with_logging := instances_with_logging findings + 1\<rparr>)
      else rds_loop rest
             (append_issue (rds_issue (DBInstanceIdentifier d))
                (findings\<lparr>instances := instances findings + 1,
                          instances_without_logging :=
                            instances_without_logging findings @ [DBInstanceIdentifier d]\<rparr>)))"

definition analyze_rds_logging :: "aws \<Rightarrow> rds_findings \<times> call list" where
  "analyze_rds_logging env =
     (case describe_db_instances env of
        Inl e \<Rightarrow> (append_issue (rds_error_issue e) rds_initial, [DescribeDBInstances])
      | Inr ds \<Rightarrow> (rds_loop ds rds_initial, [DescribeDBInstances]))"

subsection \<open>IAM\<close>

definition credential_report_issue :: issue where
  "credential_report_issue =
     \<lparr>severity = ''MEDIUM'', description = ''IAM credential reports not enabled'',
      pci_reference = ''10.2.1'',
      recommendation = ''Enable IAM credential reports for access monitoring''\<rparr>"

definition access_analyzer_issue :: issue where
  "access_analyzer_issue =
     \<lparr>severity = ''MEDIUM'', description = ''IAM Access Analyzer not enabled'',
      pci_reference = ''10.2.1'',
      recommendation = ''Enable IAM Access Analyzer for policy analysis''\<rparr>"

definition access_analyzer_unavailable_issue :: issue where
  "access_analyzer_unavailable_issue =
     \<lparr>severity = ''MEDIUM'', description = ''IAM Access Analyzer not available or enabled'',
      pci_reference = ''10.2.1'',
      recommendation = ''Enable IAM Access Analyzer for policy analysis''\<rparr>"

definition iam_error_issue :: "py_exception \<Rightarrow> issue" where
  "iam_error_issue e =
     error_issue ''IAM logging'' ''10.2.1'' ''Check IAM permissions and configuration'' e"

definition iam_initial :: iam_findings where
  "iam_initial =
     \<lparr>issues = [], credential_reports_enabled = False, access_analyzer_enabled = False\<rparr>"

text \<open>
  The body of the outer \<^verbatim>\<open>try\<close> of \<^verbatim>\<open>analyze_iam_logging\<close> (lines 239 to 269): two
  inner \<^verbatim>\<open>try\<close> statements whose bare \<^verbatim>\<open>except:\<close> catches whatever the call raises, so
  the body itself raises nothing.
\<close>

definition iam_body :: "aws \<Rightarrow> iam_findings \<Rightarrow> iam_findings \<times> py_exception option" where
  "iam_body env findings =
     (let findings =
            (case generate_credential_report env of
               Inr _ \<Rightarrow> findings\<lparr>credential_reports_enabled := True\<rparr>
             | Inl _ \<Rightarrow> append_issue credential_report_issue findings);
          findings =
            (case list_access_analyzers env of
               Inr analyzers \<Rightarrow>
                 if analyzers \<noteq> [] then findings\<lparr>access_analyzer_enabled := True\<rparr>
                 else append_issue access_analyzer_issue findings
             | Inl _ \<Rightarrow> append_issue access_analyzer_unavailable_issue findings)
      in (findings, None))"

definition analyze_iam_logging :: "aws \<Rightarrow> iam_findings \<times> call list" where
  "analyze_iam_logging env =
     (case iam_body env iam_initial of
        (findings, None) \<Rightarrow> (findings, [GenerateCredentialReport, ListAccessAnalyzers])
      | (findings, Some e) \<Rightarrow>
          (append_issue (iam_error_issue e) findings,
           [GenerateCredentialReport, ListAccessAnalyzers]))"

subsection \<open>The whole analysis\<close>

text \<open>
  \<^verbatim>\<open>run_analysis\<close> (lines 413 to 460): the five analyzers in order, the compiled findings
  with the clock's timestamp and the number of issues, and the recommendations.
\<close>

definition run_analysis ::
  "aws \<Rightarrow> string \<Rightarrow> (findings_report \<times> recommendation_entry list) \<times> call list" where
  "run_analysis env now =
     (let (cloudtrail_findings, trace1) = analyze_cloudtrail env;
          (s3_findings, trace2) = analyze_s3_logging env;
          (cloudwatch_findings, trace3) = analyze_cloudwatch_logs env;
          (rds_findings, trace4) = analyze_rds_logging env;
          (iam_findings, trace5) = analyze_iam_logging env;
          all_findings =
            \<lparr>cloudtrail = cloudtrail_findings, s3_logging = s3_findings,
             cloudwatch_logs = cloudwatch_findings, rds_logging = rds_findings,
             iam_logging = iam_findings, timestamp = now,
             total_issues =
               int (length (issues cloudtrail_findings)) + int (length (issues s3_findings)) +
               int (length (issues cloudwatch_findings)) + int (length (issues rds_findings)) +
               int (length (issues iam_findings))\<rparr>;
          recommendations = generate_recommendations all_findings
      in ((all_findings, recommendations), trace1 @ trace2 @ trace3 @ trace4 @ trace5))"

section \<open>Reading a run of the analyzers\<close>

text \<open>
  The exception with which a call ends its analyzer, if it does: the one it raises, but
  for \<^verbatim>\<open>get_bucket_logging\<close> the one that leaves the \<^verbatim>\<open>try\<close> statement of lines 118 to 139.
\<close>

definition aborts :: "aws \<Rightarrow> call \<Rightarrow> py_exception option" where
  "aborts env c =
     (case (c, outcome_of env c) of
        (GetBucketLogging _, Some e) \<Rightarrow>
          (case NoSuchBucketLoggingConfiguration env of
             Inl attribute_error \<Rightarrow> Some attribute_error
           | Inr is_instance \<Rightarrow> if is_instance e then None else Some e)
      | (_, r) \<Rightarrow> r)"

text \<open>The issues of a finding written by an \<^verbatim>\<open>except Exception as e\<close> handler.\<close>

definition synthetic_issues :: "'a service_finding_scheme \<Rightarrow> issue list" where
  "synthetic_issues findings =
     filter (\<lambda>i. prefix ''Error analyzing '' (description i)) (issues findings)"

text \<open>
  A bucket that the loop records as one without access logging when it gets past it: the
  answer of the probe has no key \<^verbatim>\<open>LoggingEnabled\<close>, or the handler of line 132 ran.
\<close>

definition s3_unlogged :: "aws \<Rightarrow> string \<Rightarrow> bool" where
  "s3_unlogged env name = (get_bucket_logging env name \<noteq> Inr True)"

text \<open>A bucket whose probe does not end the S3 analyzer.\<close>

definition s3_probe_ok :: "aws \<Rightarrow> string \<Rightarrow> bool" where
  "s3_probe_ok env name = (aborts env (GetBucketLogging name) = None)"

text \<open>
  A list of calls that ran until it ended or until one call ended the analyzer with the
  exception \<open>r\<close>: no call before the last one does, and the last one does exactly when
  \<open>r\<close> is an exception.
\<close>

definition stops_at_failure :: "aws \<Rightarrow> call list \<Rightarrow> py_exception option \<Rightarrow> bool" where
  "stops_at_failure env calls r =
     (case r of
        None \<Rightarrow> list_all (\<lambda>c. aborts env c = None) calls
      | Some e \<Rightarrow>
          calls \<noteq> [] \<and> aborts env (last calls) = Some e \<and>
          list_all (\<lambda>c. aborts env c = None) (butlast calls))"

text \<open>
  The issues an analyzer has recorded when it ends: one list for every trail, bucket, log
  group and instance it got past, none when the first call raised.
\<close>

definition trail_ok :: "aws \<Rightarrow> string \<Rightarrow> bool" where
  "trail_ok env name =
     (aborts env (GetTrail name) = None \<and> aborts env (GetTrailStatus name) = None)"

definition trail_issues :: "aws \<Rightarrow> string \<Rightarrow> issue list" where
  "trail_issues env name =
     (case (get_trail env name, get_trail_status env name) of
        (Inr trail_info, Inr is_logging) \<Rightarrow>
          if is_logging
          then (if LogFileValidationEnabled trail_info then [] else [no_validation_issue name])
          else [not_logging_issue name]
      | _ \<Rightarrow> [])"

definition cloudtrail_recorded :: "aws \<Rightarrow> issue list" where
  "cloudtrail_recorded env =
     (case list_trails env of
        Inl _ \<Rightarrow> []
      | Inr trails \<Rightarrow>
          if trails = [] then [no_trails_issue]
          else concat (map (trail_issues env) (takeWhile (trail_ok env) trails)))"

definition s3_recorded :: "aws \<Rightarrow> issue list" where
  "s3_recorded env =
     (case list_buckets env of
        Inl _ \<Rightarrow> []
      | Inr buckets \<Rightarrow>
          map s3_issue (filter (s3_unlogged env) (takeWhile (s3_probe_ok env) buckets)))"

definition cloudwatch_recorded :: "aws \<Rightarrow> issue list" where
  "cloudwatch_recorded env =
     (case describe_log_groups env of
        Inl _ \<Rightarrow> []
      | Inr groups \<Rightarrow>
          map (\<lambda>g. cloudwatch_issue (logGroupName g))
            (filter (\<lambda>g. retentionInDays g = None) groups))"

definition rds_recorded :: "aws \<Rightarrow> issue list" where
  "rds_recorded env =
     (case describe_db_instances env of
        Inl _ \<Rightarrow> []
      | Inr ds \<Rightarrow>
          map (\<lambda>d. rds_issue (DBInstanceIdentifier d))
            (filter (\<lambda>d. EnableCloudwatchLogsExports d = None
                        \<or> EnableCloudwatchLogsExports d = Some []) ds))"

text \<open>
  An account in which every call raises \<^verbatim>\<open>AccessDenied\<close>, and the exception of reading
  an exception class that the S3 client does not define.
\<close>

definition access_denied :: py_exception where
  "access_denied = PyException ''ClientError'' ''AccessDenied''"

definition no_such_attribute :: py_exception where
  "no_such_attribute =
     PyException ''AttributeError''
       ''S3Exceptions object has no attribute NoSuchBucketLoggingConfiguration''"

definition denied_aws :: aws where
  "denied_aws =
     \<lparr>list_trails = Inl access_denied, get_trail = (\<lambda>_. Inl access_denied),
      get_trail_status = (\<lambda>_. Inl access_denied), list_buckets = Inl access_denied,
      get_bucket_logging = (\<lambda>_. Inl access_denied),
      NoSuchBucketLoggingConfiguration = Inl no_such_attribute,
      describe_log_groups = Inl access_denied, describe_db_instances = Inl access_denied,
      generate_credential_report = Inl access_denied,
      list_access_analyzers = Inl access_denied\<rparr>"

text \<open>
  An account with one trail that logs without validation, three buckets of which the
  second has no access logging and the third cannot be read, two log groups of which one
  has no retention, one database without log exports, and no IAM analyzer.
\<close>

definition example_aws :: aws where
  "example_aws =
     \<lparr>list_trails = Inr [''main''],
      get_trail = (\<lambda>_. Inr \<lparr>S3BucketName = ''logs'', IsMultiRegionTrail = True,
                              LogFileValidationEnabled = False\<rparr>),
      get_trail_status = (\<lambda>_. Inr True),
      list_buckets = Inr [''a'', ''b'', ''c''],
      get_bucket_logging =
        (\<lambda>name. if name = ''a'' then Inr True
                 else if name = ''b'' then Inr False
                 else Inl access_denied),
      NoSuchBucketLoggingConfiguration = Inl no_such_attribute,
      describe_log_groups =
        Inr [\<lparr>logGroupName = ''g1'', retentionInDays = Some 30\<rparr>,
             \<lparr>logGroupName = ''g2'', retentionInDays = None\<rparr>],
      describe_db_instances =
        Inr [\<lparr>DBInstanceIdentifier = ''db1'', EnableCloudwatchLogsExports = None\<rparr>],
      generate_credential_report = Inr (),
      list_access_analyzers = Inr []\<rparr>"

section \<open>The remediation script generator\<close>

text \<open>
  \<^verbatim>\<open>RemediationScriptGenerator\<close> of \<^verbatim>\<open>scripts/generate_remediation_scripts.py\<close>. An
  object is its instance dictionary; reading an attribute looks there first, then among
  the names the class defines (its methods), and raises \<^verbatim>\<open>AttributeError\<close> otherwise.
\<close>

datatype attr_value = Config "string option" | Templates "(string \<times> string) list"

datatype attr_result = Attribute attr_value | Method string

type_synonym generator = "(string \<times> attr_value) list"

definition class_names :: "string list" where
  "class_names =
     [''__init__'', ''_load_config'', ''_load_templates'', ''generate_cloudtrail_script'',
      ''generate_s3_logging_script'', ''generate_cloudwatch_retention_script'',
      ''generate_rds_logging_script'', ''generate_iam_monitoring_script'',
      ''generate_monitoring_alerts_script'', ''generate_cost_optimization_script'',
      ''generate_master_script'', ''generate_all_scripts'']"

definition getattr :: "generator \<Rightarrow> string \<Rightarrow> py_error + attr_result" where
  "getattr self name =
     (case map_of self name of
        Some v \<Rightarrow> Inr (Attribute v)
      | None \<Rightarrow> if name \<in> set class_names then Inr (Method name) else Inl (AttributeError name))"

text \<open>
  What the generator takes from outside: the Jinja renderer, the clock, whether a path
  can be created and written, what reading the configuration file gives (its text, nothing
  when the file is missing, or the exception of the reader), the text of an exception of
  the operating system, and two texts of the source that no statement below reads (the
  template bodies and the f-string of the master script).
\<close>

datatype render_arg =
  Str string | Strs "string list" | Num int | Attr attr_result
  | Dicts "(string \<times> render_arg) list list"

record script_env =
  render :: "string \<Rightarrow> (string \<times> render_arg) list \<Rightarrow> string"
  isoformat_now :: string
  writable :: "string \<Rightarrow> bool"
  config_yaml :: "py_error + string option"
  message :: "py_error \<Rightarrow> string"
  template_body :: "string \<Rightarrow> string"
  master_body :: "string \<Rightarrow> string"

text \<open>
  \<^verbatim>\<open>__init__\<close> (lines 16 to 19) sets \<^verbatim>\<open>self.config\<close> and \<^verbatim>\<open>self.templates\<close>, and nothing
  else; \<^verbatim>\<open>config\<close> is what \<^verbatim>\<open>_load_config\<close> returned.
\<close>

definition load_templates :: "script_env \<Rightarrow> (string \<times> string) list" where
  "load_templates env =
     map (\<lambda>name. (name, template_body env name))
       [''cloudtrail_setup'', ''s3_logging_setup'', ''cloudwatch_retention_setup'',
        ''rds_logging_setup'', ''iam_monitoring_setup'', ''monitoring_alerts_setup'',
        ''cost_optimization_setup'']"

definition init :: "script_env \<Rightarrow> string option \<Rightarrow> generator" where
  "init env config =
     [(''config'', Config config), (''templates'', Templates (load_templates env))]"

text \<open>
  The files written so far, and a computation that may raise: it returns the exception or
  a result, and the files as they are then.
\<close>

type_synonym files = "(string \<times> string) list"

type_synonym 'a action = "files \<Rightarrow> (py_error + 'a) \<times> files"

definition done_with :: "'a \<Rightarrow> 'a action" where
  "done_with a fs = (Inr a, fs)"

definition raise :: "py_error \<Rightarrow> 'a action" where
  "raise e fs = (Inl e, fs)"

definition then_do :: "'a action \<Rightarrow> ('a \<Rightarrow> 'b action) \<Rightarrow> 'b action" where
  "then_do m k fs = (case m fs of (Inl e, fs') \<Rightarrow> (Inl e, fs') | (Inr a, fs') \<Rightarrow> k a fs')"

definition attribute :: "generator \<Rightarrow> string \<Rightarrow> attr_result action" where
  "attribute self name = (case getattr self name of Inl e \<Rightarrow> raise e | Inr v \<Rightarrow> done_with v)"

text \<open>\<^verbatim>\<open>Template(self.templates[name])\<close>: the text of a template of the object.\<close>

definition template_of :: "generator \<Rightarrow> string \<Rightarrow> string action" where
  "template_of self name =
     then_do (attribute self ''templates'')
       (\<lambda>v. case v of
               Attribute (Templates ts) \<Rightarrow>
                 (case map_of ts name of
                    Some body \<Rightarrow> done_with body
                  | None \<Rightarrow> raise (KeyError name))
             | _ \<Rightarrow> raise (TypeError ''templates''))"

text \<open>\<^verbatim>\<open>os.path.join\<close> of a directory and a relative name.\<close>

definition path_join :: "string \<Rightarrow> string \<Rightarrow> string" where
  "path_join dir name =
     (if dir = [] then name
      else if last dir = CHR ''/'' then dir @ name else dir @ ''/'' @ name)"

text \<open>
  The end of every generator: \<^verbatim>\<open>os.makedirs\<close>, \<^verbatim>\<open>open\<close>, \<^verbatim>\<open>write\<close>, \<^verbatim>\<open>os.chmod\<close>,
  and the path returned.
\<close>

definition write_script :: "script_env \<Rightarrow> string \<Rightarrow> string \<Rightarrow> string \<Rightarrow> string action" where
  "write_script env output_dir name content fs =
     (let script_path = path_join output_dir name in
      if writable env script_path then (Inr script_path, fs @ [(script_path, content)])
      else (Inl (OSError script_path), fs))"

text \<open>
  The generators (lines 371 to 623). The arguments of \<^verbatim>\<open>template.render\<close> are evaluated
  from left to right before the call, so \<^verbatim>\<open>self.region\<close> is read before anything is
  rendered or written.
\<close>

definition generate_cloudtrail_script_file ::
  "generator \<Rightarrow> findings_report \<Rightarrow> string \<Rightarrow> script_env \<Rightarrow> string action" where
  "generate_cloudtrail_script_file self findings output_dir env =
     then_do (template_of self ''cloudtrail_setup'') (\<lambda>template.
     then_do (attribute self ''region'') (\<lambda>region.
     then_do (attribute self ''account_id'') (\<lambda>account_id.
     write_script env output_dir ''setup_cloudtrail.sh''
       (render env template
          [(''timestamp'', Str (isoformat_now env)), (''pci_reference'', Str ''10.2.1-10.2.7''),
           (''trail_name'', Str ''pci-compliance-trail''),
           (''s3_bucket'', Str ''pci-logs-bucket''),
           (''cloudwatch_log_group'', Str ''/aws/cloudtrail/pci-compliance''),
           (''region'', Attr region), (''account_id'', Attr account_id)]))))"

definition generate_s3_logging_script_file ::
  "generator \<Rightarrow> string list \<Rightarrow> string \<Rightarrow> script_env \<Rightarrow> string action" where
  "generate_s3_logging_script_file self buckets output_dir env =
     then_do (template_of self ''s3_logging_setup'') (\<lambda>template.
     then_do (attribute self ''region'') (\<lambda>region.
     write_script env output_dir ''setup_s3_logging.sh''
       (render env template
          [(''timestamp'', Str (isoformat_now env)), (''pci_reference'', Str ''10.2.1''),
           (''log_bucket'', Str ''pci-s3-logs-bucket''), (''log_prefix'', Str ''s3-access-logs''),
           (''region'', Attr region), (''buckets'', Strs buckets)])))"

definition generate_cloudwatch_retention_script_file ::
  "generator \<Rightarrow> string list \<Rightarrow> string \<Rightarrow> script_env \<Rightarrow> string action" where
  "generate_cloudwatch_retention_script_file self groups output_dir env =
     then_do (template_of self ''cloudwatch_retention_setup'') (\<lambda>template.
     write_script env output_dir ''setup_cloudwatch_retention.sh''
       (render env template
          [(''timestamp'', Str (isoformat_now env)), (''pci_reference'', Str ''10.5.1.2''),
           (''log_groups'', Strs groups), (''retention_days'', Num 365)]))"

definition generate_rds_logging_script_file ::
  "generator \<Rightarrow> string list \<Rightarrow> string \<Rightarrow> script_env \<Rightarrow> string action" where
  "generate_rds_logging_script_file self insts output_dir env =
     then_do (template_of self ''rds_logging_setup'') (\<lambda>template.
     write_script env output_dir ''setup_rds_logging.sh''
       (render env template
          [(''timestamp'', Str (isoformat_now env)), (''pci_reference'', Str ''10.2.1''),
           (''instances'', Strs insts)]))"

definition generate_iam_monitoring_script :: "generator \<Rightarrow> string \<Rightarrow> script_env \<Rightarrow> string action" where
  "generate_iam_monitoring_script self output_dir env =
     then_do (template_of self ''iam_monitoring_setup'') (\<lambda>template.
     then_do (attribute self ''region'') (\<lambda>region.
     write_script env output_dir ''setup_iam_monitoring.sh''
       (render env template
          [(''timestamp'', Str (isoformat_now env)), (''pci_reference'', Str ''10.2.1''),
           (''region'', Attr region)])))"

definition alerts :: "(string \<times> render_arg) list list" where
  "alerts =
     [[(''name'', Str ''CloudTrail-Delivery-Failure''),
       (''description'', Str ''CloudTrail log delivery failure''),
       (''metric_name'', Str ''DeliveryErrors''), (''namespace'', Str ''AWS/CloudTrail''),
       (''statistic'', Str ''Sum''), (''period'', Num 300), (''threshold'', Num 1),
       (''comparison_operator'', Str ''GreaterThanThreshold''),
       (''evaluation_periods'', Num 1)],
      [(''name'', Str ''S3-Access-Denied''),
       (''description'', Str ''S3 access denied attempts''),
       (''metric_name'', Str ''4xxError''), (''namespace'', Str ''AWS/S3''),
       (''statistic'', Str ''Sum''), (''period'', Num 300), (''threshold'', Num 10),
       (''comparison_operator'', Str ''GreaterThanThreshold''),
       (''evaluation_periods'', Num 2)]]"

definition generate_monitoring_alerts_script ::
  "generator \<Rightarrow> string \<Rightarrow> script_env \<Rightarrow> string action" where
  "generate_monitoring_alerts_script self output_dir env =
     then_do (template_of self ''monitoring_alerts_setup'') (\<lambda>template.
     then_do (attribute self ''region'') (\<lambda>region.
     write_script env output_dir ''setup_monitoring_alerts.sh''
       (render env template
          [(''timestamp'', Str (isoformat_now env)), (''pci_reference'', Str ''10.4.1''),
           (''region'', Attr region), (''alerts'', Dicts alerts)])))"

definition generate_cost_optimization_script ::
  "generator \<Rightarrow> string \<Rightarrow> script_env \<Rightarrow> string action" where
  "generate_cost_optimization_script self output_dir env =
     then_do (template_of self ''cost_optimization_setup'') (\<lambda>template.
     write_script env output_dir ''setup_cost_optimization.sh''
       (render env template
          [(''timestamp'', Str (isoformat_now env)), (''budget_amount'', Str ''100''),
           (''alert_email'', Str ''admin@example.com''),
           (''account_id'', Str ''123456789012'')]))"

definition generate_master_script ::
  "generator \<Rightarrow> findings_report \<Rightarrow> string \<Rightarrow> script_env \<Rightarrow> string action" where
  "generate_master_script self findings output_dir env =
     write_script env output_dir ''run_all_remediation.sh'' (master_body env (isoformat_now env))"

text \<open>
  \<^verbatim>\<open>generate_all_scripts\<close> (lines 625 to 669): four conditional generators, then four
  that always run, each path appended to the list that is returned.
\<close>

definition generate_all_scripts ::
  "generator \<Rightarrow> findings_report \<Rightarrow> string \<Rightarrow> script_env \<Rightarrow> string list action" where
  "generate_all_scripts self findings output_dir env =
     then_do
       (if \<not> enabled (cloudtrail findings)
        then then_do (generate_cloudtrail_script_file self findings output_dir env)
               (\<lambda>script_path. done_with [script_path])
        else done_with []) (\<lambda>generated_scripts.
     then_do
       (if buckets_without_logging (s3_logging findings) \<noteq> []
        then then_do
               (generate_s3_logging_script_file self
                  (buckets_without_logging (s3_logging findings)) output_dir env)
               (\<lambda>script_path. done_with (generated_scripts @ [script_path]))
        else done_with generated_scripts) (\<lambda>generated_scripts.
     then_do
       (if log_groups_without_retention (cloudwatch_logs findings) \<noteq> []
        then then_do
               (generate_cloudwatch_retention_script_file self
                  (log_groups_without_retention (cloudwatch_logs findings)) output_dir env)
               (\<lambda>script_path. done_with (generated_scripts @ [script_path]))
        else done_with generated_scripts) (\<lambda>generated_scripts.
     then_do
       (if instances_without_logging (rds_logging findings) \<noteq> []
        then then_do
               (generate_rds_logging_script_file self
                  (instances_without_logging (rds_logging findings)) output_dir env)
               (\<lambda>script_path. done_with (generated_scripts @ [script_path]))
        else done_with generated_scripts) (\<lambda>generated_scripts.
     then_do (generate_iam_monitoring_script self output_dir env) (\<lambda>script_path.
     then_do (generate_monitoring_alerts_script self output_dir env) (\<lambda>script_path2.
     then_do (generate_cost_optimization_script self output_dir env) (\<lambda>script_path3.
     then_do (generate_master_script self findings output_dir env) (\<lambda>script_path4.
     done_with (generated_scripts @ [script_path, script_path2, script_path3, script_path4])
     ))))))))"

text \<open>
  \<^verbatim>\<open>main\<close> (lines 671 to 695): what it prints and the status the process exits with.
  Every exception of the body is caught, reported and turned into status 1. The
  constructor is called without an argument, so \<^verbatim>\<open>_load_config\<close> (lines 21 to 27) reads
  the default path, and prints a warning when the file is missing.
\<close>

definition str_of_error :: "script_env \<Rightarrow> py_error \<Rightarrow> string" where
  "str_of_error env e =
     (case e of
        AttributeError name \<Rightarrow>
          [CHR 0x27] @ ''RemediationScriptGenerator'' @ [CHR 0x27] @ '' object has no attribute ''
          @ [CHR 0x27] @ name @ [CHR 0x27]
      | _ \<Rightarrow> message env e)"

record run =
  exit_code :: int
  printed :: "string list"
  written :: files

definition failed :: "script_env \<Rightarrow> py_error \<Rightarrow> files \<Rightarrow> run" where
  "failed env e fs = \<lparr>exit_code = 1, printed = [''Error: '' @ str_of_error env e], written = fs\<rparr>"

definition load_config_printed :: "string option \<Rightarrow> string list" where
  "load_config_printed config =
     (case config of
        None \<Rightarrow>
          [''Warning: Configuration file config/pci_dss_config.yaml not found. Using defaults.'']
      | Some _ \<Rightarrow> [])"

definition printed_before :: "string list \<Rightarrow> run \<Rightarrow> run" where
  "printed_before printed_lines r = r\<lparr>printed := printed_lines @ printed r\<rparr>"

definition main :: "script_env \<Rightarrow> py_error + findings_report \<Rightarrow> string \<Rightarrow> files \<Rightarrow> run" where
  "main env loaded output_dir fs =
     (case loaded of
        Inl e \<Rightarrow> failed env e fs
      | Inr findings \<Rightarrow>
          (case config_yaml env of
             Inl e \<Rightarrow> failed env e fs
           | Inr config \<Rightarrow>
               printed_before (load_config_printed config)
                 (case generate_all_scripts (init env config) findings output_dir env fs of
                    (Inl e, fs') \<Rightarrow> failed env e fs'
                  | (Inr generated_scripts, fs') \<Rightarrow>
                      \<lparr>exit_code = 0,
                       printed =
                         [''Generated '' @ str_of_nat (length generated_scripts)
                          @ '' remediation scripts:'']
                         @ map (\<lambda>script. ''  - '' @ script) generated_scripts
                         @ [newline # ''To apply all remediations, run: ./'' @ output_dir
                            @ ''/run_all_remediation.sh''],
                       written = fs'\<rparr>)))"


text \<open>
  The outcomes of \<^verbatim>\<open>generate_all_scripts\<close> that are the exception of the missing attribute
  \<^verbatim>\<open>region\<close>, or the failure to write a file that could not be written.
\<close>

definition region_or_write_error :: "script_env \<Rightarrow> (py_error + string list) \<Rightarrow> bool" where
  "region_or_write_error env r =
     (case r of
        Inl (AttributeError name) \<Rightarrow> name = ''region''
      | Inl (OSError script_path) \<Rightarrow> \<not> writable env script_path
      | _ \<Rightarrow> False)"


section \<open>Properties of the recommendation deriver\<close>

lemma generate_recommendations_concat:
  "generate_recommendations f =
     (if \<not> enabled (cloudtrail f) then [rec_enable_cloudtrail] else []) @
     (if \<not> multi_region (cloudtrail f) then [rec_multi_region] else []) @
     (if buckets_without_logging (s3_logging f) \<noteq> []
      then [rec_s3_logging (buckets_without_logging (s3_logging f))] else []) @
     (if log_groups_without_retention (cloudwatch_logs f) \<noteq> []
      then [rec_cloudwatch_retention (log_groups_without_retention (cloudwatch_logs f))]
      else []) @
     (if instances_without_logging (rds_logging f) \<noteq> []
      then [rec_rds_logging (instances_without_logging (rds_logging f))] else [])"
  by (simp add: generate_recommendations_def Let_def)

lemma rec_titles:
  "rec_title rec_enable_cloudtrail = ''Enable CloudTrail''"
  "rec_title rec_multi_region = ''Enable Multi-Region CloudTrail''"
  "rec_title (rec_s3_logging bs) = ''Enable S3 Access Logging''"
  "rec_title (rec_cloudwatch_retention gs) = ''Set Log Retention Policies''"
  "rec_title (rec_rds_logging ds) = ''Enable RDS CloudWatch Logging''"
  by (simp_all add: rec_enable_cloudtrail_def rec_multi_region_def rec_s3_logging_def
      rec_cloudwatch_retention_def rec_rds_logging_def)

lemma rec_categories:
  "rec_category rec_enable_cloudtrail = ''CloudTrail''"
  "rec_category rec_multi_region = ''CloudTrail''"
  "rec_category (rec_s3_logging bs) = ''S3''"
  "rec_category (rec_cloudwatch_retention gs) = ''CloudWatch''"
  "rec_category (rec_rds_logging ds) = ''RDS''"
  by (simp_all add: rec_enable_cloudtrail_def rec_multi_region_def rec_s3_logging_def
      rec_cloudwatch_retention_def rec_rds_logging_def)

text \<open>
  Five optional singletons, appended in a fixed order, form a subsequence of the five
  elements, and each element is present exactly when its condition holds.
\<close>

lemma conditional_appends:
  fixes t1 :: "'a" and c1 c2 c3 c4 c5 :: bool
  assumes "distinct [t1, t2, t3, t4, t5]"
  defines "xs \<equiv> (if c1 then [t1] else []) @ (if c2 then [t2] else []) @
     (if c3 then [t3] else []) @ (if c4 then [t4] else []) @ (if c5 then [t5] else [])"
  shows "subseq xs [t1, t2, t3, t4, t5]"
    and "t1 \<in> set xs \<longleftrightarrow> c1" and "t2 \<in> set xs \<longleftrightarrow> c2" and "t3 \<in> set xs \<longleftrightarrow> c3"
    and "t4 \<in> set xs \<longleftrightarrow> c4" and "t5 \<in> set xs \<longleftrightarrow> c5"
proof -
  show "subseq xs [t1, t2, t3, t4, t5]"
    unfolding xs_def
    by (cases c1; cases c2; cases c3; cases c4; cases c5) (simp_all add: subseq_Cons')
  show "t1 \<in> set xs \<longleftrightarrow> c1" "t2 \<in> set xs \<longleftrightarrow> c2" "t3 \<in> set xs \<longleftrightarrow> c3"
    "t4 \<in> set xs \<longleftrightarrow> c4" "t5 \<in> set xs \<longleftrightarrow> c5"
    using assms(1) unfolding xs_def by auto
qed

lemma recommendation_titles:
  "map rec_title (generate_recommendations f) =
     (if \<not> enabled (cloudtrail f) then [''Enable CloudTrail''] else []) @
     (if \<not> multi_region (cloudtrail f) then [''Enable Multi-Region CloudTrail''] else []) @
     (if buckets_without_logging (s3_logging f) \<noteq> [] then [''Enable S3 Access Logging''] else []) @
     (if log_groups_without_retention (cloudwatch_logs f) \<noteq> []
      then [''Set Log Retention Policies''] else []) @
     (if instances_without_logging (rds_logging f) \<noteq> []
      then [''Enable RDS CloudWatch Logging''] else [])"
  unfolding generate_recommendations_concat map_append
  by (simp only: if_distrib [of "map rec_title"] list.map rec_titles)

lemma recommendation_titles_distinct:
  "distinct [''Enable CloudTrail'', ''Enable Multi-Region CloudTrail'',
     ''Enable S3 Access Logging'', ''Set Log Retention Policies'',
     ''Enable RDS CloudWatch Logging'']"
  by simp

text \<open>
  Claim C5. For every findings report the titles of the derived recommendations are a
  subsequence of the fixed order Enable CloudTrail, Enable Multi-Region CloudTrail, Enable
  S3 Access Logging, Set Log Retention Policies, Enable RDS CloudWatch Logging (so nothing
  else is ever emitted and the order never changes), and each of the five is present
  exactly when its condition holds: CloudTrail not enabled, CloudTrail not multi-region, a
  non-empty list of buckets without logging, of log groups without retention, of
  instances without logging.
\<close>

theorem generate_recommendations_fixed_order:
  "subseq (map rec_title (generate_recommendations f))
     [''Enable CloudTrail'', ''Enable Multi-Region CloudTrail'', ''Enable S3 Access Logging'',
      ''Set Log Retention Policies'', ''Enable RDS CloudWatch Logging''] \<and>
   (''Enable CloudTrail'' \<in> set (map rec_title (generate_recommendations f)) \<longleftrightarrow>
      \<not> enabled (cloudtrail f)) \<and>
   (''Enable Multi-Region CloudTrail'' \<in> set (map rec_title (generate_recommendations f)) \<longleftrightarrow>
      \<not> multi_region (cloudtrail f)) \<and>
   (''Enable S3 Access Logging'' \<in> set (map rec_title (generate_recommendations f)) \<longleftrightarrow>
      buckets_without_logging (s3_logging f) \<noteq> []) \<and>
   (''Set Log Retention Policies'' \<in> set (map rec_title (generate_recommendations f)) \<longleftrightarrow>
      log_groups_without_retention (cloudwatch_logs f) \<noteq> []) \<and>
   (''Enable RDS CloudWatch Logging'' \<in> set (map rec_title (generate_recommendations f)) \<longleftrightarrow>
      instances_without_logging (rds_logging f) \<noteq> [])"
proof -
  note L = conditional_appends [OF recommendation_titles_distinct,
      of "\<not> enabled (cloudtrail f)" "\<not> multi_region (cloudtrail f)"
         "buckets_without_logging (s3_logging f) \<noteq> []"
         "log_groups_without_retention (cloudwatch_logs f) \<noteq> []"
         "instances_without_logging (rds_logging f) \<noteq> []"]
  show ?thesis
    unfolding recommendation_titles
    by (intro conjI) (rule L)+
qed

section \<open>Properties of the compliance table\<close>

lemma append_category_issues_eq:
  "append_category_issues category xs acc =
     acc @ map (\<lambda>i. \<lparr>ri_category = upper category, ri_severity = severity i,
                      ri_description = description i, ri_pci_reference = pci_reference i\<rparr>) xs"
  by (induction xs arbitrary: acc) simp_all

lemma collect_report_issues_refs:
  "\<exists>rows. collect_report_issues (findings_items f) [] = Inr rows \<and>
     map ri_pci_reference rows = map pci_reference (issues_of_report f)"
  by (simp add: findings_items_def get_issues_def append_category_issues_eq
      issues_of_report_def comp_def)

lemma collect_issues_eq:
  "collect_issues (findings_items f) [] = Inr (issues_of_report f)"
  by (simp add: findings_items_def get_issues_def issues_of_report_def)

lemma map_issues_to_requirements_set:
  "set (map_issues_to_requirements xs acc) = set acc \<union> (pci_reference ` set xs - {[]})"
  by (induction xs arbitrary: acc) (auto simp: Let_def)

lemma map_issues_to_requirements_distinct:
  "distinct acc \<Longrightarrow> distinct (map_issues_to_requirements xs acc)"
  by (induction xs arbitrary: acc) (auto simp: Let_def)

lemma compliance_table_eq:
  "compliance_table f =
     Inr (map (\<lambda>(req, desc).
            (req, desc,
             if req \<in> set (map pci_reference (issues_of_report f))
             then NonCompliant else Compliant))
          pci_requirements)"
proof -
  obtain rows where rows: "collect_report_issues (findings_items f) [] = Inr rows"
    and refs: "map ri_pci_reference rows = map pci_reference (issues_of_report f)"
    using collect_report_issues_refs by blast
  have "set (map ri_pci_reference rows) = set (map pci_reference (issues_of_report f))"
    using refs by (rule arg_cong)
  then have same: "ri_pci_reference ` set rows = pci_reference ` set (issues_of_report f)"
    by simp
  show ?thesis
    unfolding compliance_table_def rows compliance_rows_def requirement_status_def
    by (simp add: same split_def)
qed

text \<open>
  Claim C4. For every findings report the compliance table has one row per clause of the
  static ten-entry table, and the row of a clause is Non-Compliant exactly when the clause
  id is equal, as a string, to the \<^verbatim>\<open>pci_reference\<close> of some issue of the report. The
  test of line 598 is string equality for any id: an issue tagged \<^verbatim>\<open>10.2.1\<close> does not
  make the range id \<^verbatim>\<open>10.2.1-10.2.7\<close> Non-Compliant. The list of
  \<^verbatim>\<open>get_non_compliant_requirements\<close> holds each non-empty reference of the report once,
  and no clause id of the table is empty.
\<close>

theorem compliance_table_exact_match:
  "compliance_table f =
     Inr (map (\<lambda>(req, desc).
            (req, desc,
             if req \<in> set (map pci_reference (issues_of_report f))
             then NonCompliant else Compliant))
          pci_requirements) \<and>
   length pci_requirements = 10 \<and>
   (requirement_status rows req = NonCompliant \<longleftrightarrow> req \<in> set (map ri_pci_reference rows)) \<and>
   requirement_status
     [\<lparr>ri_category = c, ri_severity = s, ri_description = d, ri_pci_reference = ''10.2.1''\<rparr>]
     ''10.2.1-10.2.7'' = Compliant \<and>
   (\<exists>nc. get_non_compliant_requirements f = Inr nc \<and> distinct nc \<and>
      set nc = set (map pci_reference (issues_of_report f)) - {[]}) \<and>
   [] \<notin> set (map fst pci_requirements)"
proof -
  have nc: "\<exists>nc. get_non_compliant_requirements f = Inr nc \<and> distinct nc \<and>
      set nc = set (map pci_reference (issues_of_report f)) - {[]}"
    by (simp add: get_non_compliant_requirements_def collect_issues_eq
        map_issues_to_requirements_set map_issues_to_requirements_distinct)
  have status: "requirement_status rows req = NonCompliant \<longleftrightarrow>
      req \<in> set (map ri_pci_reference rows)"
    by (simp add: requirement_status_def)
  have "length pci_requirements = 10" "[] \<notin> set (map fst pci_requirements)"
    by (simp_all add: pci_requirements_def)
  moreover have "requirement_status
     [\<lparr>ri_category = c, ri_severity = s, ri_description = d, ri_pci_reference = ''10.2.1''\<rparr>]
     ''10.2.1-10.2.7'' = Compliant"
    by (simp add: requirement_status_def)
  ultimately show ?thesis
    using compliance_table_eq [of f] nc status by blast
qed

section \<open>The end-to-end example\<close>

lemma sample_issue_refs:
  "pci_reference (sample_s3_issue b) = ''10.2.1''"
  "pci_reference (sample_cloudwatch_issue g) = ''10.5.1.2''"
  "pci_reference (sample_rds_issue d) = ''10.2.1''"
  by (simp_all add: sample_s3_issue_def sample_cloudwatch_issue_def sample_rds_issue_def)

lemma sample_refs:
  "map pci_reference (issues_of_report (create_sample_findings now)) =
     [''10.2.1-10.2.7'', ''10.2.1'', ''10.2.1'', ''10.2.1'', ''10.5.1.2'', ''10.5.1.2'',
      ''10.5.1.2'', ''10.5.1.2'', ''10.5.1.2'', ''10.2.1'', ''10.2.1'', ''10.2.1'', ''10.2.1'']"
  by (simp add: issues_of_report_def create_sample_findings_def sample_issue_refs)

lemma sample_recommendation_categories:
  "map rec_category (generate_recommendations (create_sample_findings now)) =
     [''CloudTrail'', ''CloudTrail'', ''S3'', ''CloudWatch'', ''RDS'']"
  unfolding generate_recommendations_concat
  by (simp add: create_sample_findings_def rec_categories)

lemma sample_recommendation_titles:
  "map rec_title (generate_recommendations (create_sample_findings now)) =
     [''Enable CloudTrail'', ''Enable Multi-Region CloudTrail'', ''Enable S3 Access Logging'',
      ''Set Log Retention Policies'', ''Enable RDS CloudWatch Logging'']"
  unfolding recommendation_titles
  by (simp add: create_sample_findings_def)

lemma sample_compliance_table:
  "compliance_table (create_sample_findings now) =
     Inr [(''10.2.1'', ''All individual access to cardholder data'', NonCompliant),
          (''10.2.2'',
           ''All actions taken by any individual with root or administrative privileges'',
           Compliant),
          (''10.2.3'', ''Access to all audit trails'', Compliant),
          (''10.2.4'', ''Invalid logical access attempts'', Compliant),
          (''10.2.5'', ''Use of identification and authentication mechanisms'', Compliant),
          (''10.2.6'', ''Initialization of the audit logs'', Compliant),
          (''10.2.7'', ''Creation and deletion of system-level objects'', Compliant),
          (''10.5.1.2'', ''Retain audit trail history for at least one year'', NonCompliant),
          (''10.5.2'', ''Protect audit trail files from unauthorized modifications'',
           Compliant),
          (''10.5.3'', ''Promptly back up audit trail files to a centralized log server'',
           Compliant)]"
  unfolding compliance_table_eq sample_refs
  by (simp add: pci_requirements_def)

lemma sample_non_compliant_requirements:
  "get_non_compliant_requirements (create_sample_findings now) =
     Inr [''10.2.1-10.2.7'', ''10.2.1'', ''10.5.1.2'']"
  by (simp add: get_non_compliant_requirements_def collect_issues_eq issues_of_report_def
      create_sample_findings_def sample_issue_refs Let_def)

lemma sample_issue_count:
  "length (issues_of_report (create_sample_findings now)) = 13"
  by (simp add: issues_of_report_def create_sample_findings_def)

text \<open>
  Claim C1, as stated, fails on the sample findings: the deriver emits no recommendation
  of category IAM, and \<^verbatim>\<open>10.2.1-10.2.7\<close> is not a clause of the compliance table, so no
  row of the table can mark it.
\<close>

theorem sample_pipeline_counterexample:
  "''IAM'' \<notin> set (map rec_category
      (generate_recommendations (create_sample_findings ''2025-01-01T00:00:00''))) \<and>
   map rec_category (generate_recommendations (create_sample_findings ''2025-01-01T00:00:00''))
     \<noteq> [''CloudTrail'', ''S3'', ''CloudWatch'', ''RDS'', ''IAM''] \<and>
   map_sum id (map fst) (compliance_table (create_sample_findings ''2025-01-01T00:00:00''))
     = Inr (map fst pci_requirements) \<and>
   ''10.2.1-10.2.7'' \<notin> set (map fst pci_requirements)"
  unfolding sample_recommendation_categories sample_compliance_table
  by (simp add: pci_requirements_def)

text \<open>
  Claim C1, amended. On the sample findings the stored total is 12 (the five issue lists
  hold 13 issues); the deriver yields exactly five recommendations, of the categories
  CloudTrail, CloudTrail, S3, CloudWatch, RDS; the compliance table of
  \<^verbatim>\<open>generate_report\<close> marks exactly the clauses \<^verbatim>\<open>10.2.1\<close> and \<^verbatim>\<open>10.5.1.2\<close>
  Non-Compliant and its eight other clauses Compliant; and
  \<^verbatim>\<open>get_non_compliant_requirements\<close> returns the references \<^verbatim>\<open>10.2.1-10.2.7\<close>,
  \<^verbatim>\<open>10.2.1\<close>, \<^verbatim>\<open>10.5.1.2\<close>.
\<close>

theorem sample_pipeline_outputs:
  "total_issues (create_sample_findings now) = 12 \<and>
   length (issues_of_report (create_sample_findings now)) = 13 \<and>
   map rec_category (generate_recommendations (create_sample_findings now)) =
     [''CloudTrail'', ''CloudTrail'', ''S3'', ''CloudWatch'', ''RDS''] \<and>
   map rec_title (generate_recommendations (create_sample_findings now)) =
     [''Enable CloudTrail'', ''Enable Multi-Region CloudTrail'', ''Enable S3 Access Logging'',
      ''Set Log Retention Policies'', ''Enable RDS CloudWatch Logging''] \<and>
   compliance_table (create_sample_findings now) =
     Inr [(''10.2.1'', ''All individual access to cardholder data'', NonCompliant),
          (''10.2.2'',
           ''All actions taken by any individual with root or administrative privileges'',
           Compliant),
          (''10.2.3'', ''Access to all audit trails'', Compliant),
          (''10.2.4'', ''Invalid logical access attempts'', Compliant),
          (''10.2.5'', ''Use of identification and authentication mechanisms'', Compliant),
          (''10.2.6'', ''Initialization of the audit logs'', Compliant),
          (''10.2.7'', ''Creation and deletion of system-level objects'', Compliant),
          (''10.5.1.2'', ''Retain audit trail history for at least one year'', NonCompliant),
          (''10.5.2'', ''Protect audit trail files from unauthorized modifications'',
           Compliant),
          (''10.5.3'', ''Promptly back up audit trail files to a centralized log server'',
           Compliant)] \<and>
   get_non_compliant_requirements (create_sample_findings now) =
     Inr [''10.2.1-10.2.7'', ''10.2.1'', ''10.5.1.2'']"
proof -
  have "total_issues (create_sample_findings now) = 12"
    by (simp add: create_sample_findings_def)
  then show ?thesis
    using sample_issue_count sample_recommendation_categories sample_recommendation_titles
      sample_compliance_table sample_non_compliant_requirements
    by (intro conjI)
qed

section \<open>Properties of the S3 remediation script\<close>

lemma s3_script_loop_eq:
  "s3_script_loop buckets script = script @ concat (map s3_script_block buckets)"
  by (induction buckets arbitrary: script) simp_all

lemma lines_of_Cons:
  "lines_of (c # cs) =
     (if c = newline then [] # lines_of cs else (c # hd (lines_of cs)) # tl (lines_of cs))"
  by (simp add: lines_of_def)

lemma lines_of_line:
  "newline \<notin> set a \<Longrightarrow> lines_of (a @ newline # rest) = a # lines_of rest"
  by (induction a) (auto simp: lines_of_Cons)

lemma lines_of_last:
  "newline \<notin> set a \<Longrightarrow> lines_of a = [a]"
  by (induction a) (auto simp: lines_of_Cons, simp add: lines_of_def)

lemma s3_script_block_lines:
  "s3_script_block b @ rest =
     s3_command_line @ newline # s3_bucket_line b @ newline # s3_status_line b @
     newline # [] @ newline # rest"
  by (simp add: s3_script_block_def s3_command_line_def s3_bucket_line_def s3_status_line_def
      newline_def backslash_def)

lemma s3_lines_no_newline:
  "newline \<notin> set s3_command_line"
  "newline \<notin> set b \<Longrightarrow> newline \<notin> set (s3_bucket_line b)"
  "newline \<notin> set b \<Longrightarrow> newline \<notin> set (s3_status_line b)"
  "newline \<notin> set s3_script_footer"
  by (auto simp: s3_command_line_def s3_bucket_line_def s3_status_line_def
      s3_script_footer_def newline_def backslash_def)

lemma lines_of_s3_block:
  assumes "newline \<notin> set b"
  shows "lines_of (s3_script_block b @ rest) =
     [s3_command_line, s3_bucket_line b, s3_status_line b, []] @ lines_of rest"
proof -
  have "lines_of ([] @ newline # rest) = [] # lines_of rest"
    by (rule lines_of_line) simp
  then have "lines_of (s3_status_line b @ newline # [] @ newline # rest) =
      s3_status_line b # [] # lines_of rest"
    using assms by (simp add: lines_of_line s3_lines_no_newline)
  then have "lines_of (s3_bucket_line b @ newline # s3_status_line b @ newline # [] @
      newline # rest) = s3_bucket_line b # s3_status_line b # [] # lines_of rest"
    using assms by (simp add: lines_of_line s3_lines_no_newline)
  then show ?thesis
    unfolding s3_script_block_lines
    by (simp add: lines_of_line s3_lines_no_newline)
qed

lemma lines_of_s3_blocks:
  assumes "\<forall>b\<in>set buckets. newline \<notin> set b"
  shows "lines_of (concat (map s3_script_block buckets) @ s3_script_footer) =
     concat (map (\<lambda>b. [s3_command_line, s3_bucket_line b, s3_status_line b, []]) buckets) @
     [s3_script_footer]"
  using assms
proof (induction buckets)
  case Nil
  then show ?case by (simp add: lines_of_last s3_lines_no_newline)
next
  case (Cons b buckets)
  then show ?case by (simp add: lines_of_s3_block)
qed

lemma lines_of_s3_script:
  assumes "\<forall>b\<in>set buckets. newline \<notin> set b"
  shows "lines_of (generate_s3_logging_script buckets) =
     [''#!/bin/bash'', ''# Enable S3 access logging for buckets''] @
     concat (map (\<lambda>b. [s3_command_line, s3_bucket_line b, s3_status_line b, []]) buckets) @
     [s3_script_footer]"
proof -
  have hdr: "s3_script_header @ rest =
      ''#!/bin/bash'' @ newline # ''# Enable S3 access logging for buckets'' @ newline # rest"
    for rest
    by (simp add: s3_script_header_def newline_def)
  have "lines_of (s3_script_header @ rest) =
      [''#!/bin/bash'', ''# Enable S3 access logging for buckets''] @ lines_of rest" for rest
    unfolding hdr
    by (subst lines_of_line, simp add: newline_def, subst lines_of_line,
        simp add: newline_def, simp)
  then show ?thesis
    using lines_of_s3_blocks [OF assms]
    by (simp add: generate_s3_logging_script_def s3_script_loop_eq)
qed

lemma s3_command_prefixes:
  "prefix ''aws s3api put-bucket-logging'' s3_command_line"
  "\<not> prefix ''aws s3api put-bucket-logging'' (s3_bucket_line b)"
  "\<not> prefix ''aws s3api put-bucket-logging'' (s3_status_line b)"
  "\<not> prefix ''aws s3api put-bucket-logging'' s3_script_footer"
  by (simp_all add: s3_command_line_def s3_bucket_line_def s3_status_line_def
      s3_script_footer_def)

lemma s3_bucket_prefixes:
  \<open>\<not> prefix ''    --bucket "'' s3_command_line\<close>
  \<open>prefix ''    --bucket "'' (s3_bucket_line b)\<close>
  \<open>\<not> prefix ''    --bucket "'' (s3_status_line b)\<close>
  \<open>\<not> prefix ''    --bucket "'' s3_script_footer\<close>
  by (simp_all add: s3_command_line_def s3_bucket_line_def s3_status_line_def
      s3_script_footer_def)

lemma filter_s3_command_lines:
  "filter (prefix ''aws s3api put-bucket-logging'')
     (concat (map (\<lambda>b. [s3_command_line, s3_bucket_line b, s3_status_line b, []]) buckets)) =
   replicate (length buckets) s3_command_line"
  by (induction buckets) (simp_all add: s3_command_prefixes)

lemma filter_s3_bucket_lines:
  \<open>filter (prefix ''    --bucket "'')
     (concat (map (\<lambda>b. [s3_command_line, s3_bucket_line b, s3_status_line b, []]) buckets)) =
   map s3_bucket_line buckets\<close>
  by (induction buckets) (simp_all add: s3_bucket_prefixes)

text \<open>
  Claim C7. For every list of bucket names the S3 script is the header, then one
  \<^verbatim>\<open>aws s3api put-bucket-logging\<close> block per name in the order of the list, then the closing
  \<^verbatim>\<open>echo\<close>. When no name holds a newline, the lines of the script that start with
  \<^verbatim>\<open>aws s3api put-bucket-logging\<close> are as many as the names, and the \<^verbatim>\<open>--bucket\<close>
  lines name the buckets in the order of the list.
\<close>

theorem generate_s3_logging_script_invocations:
  \<open>generate_s3_logging_script buckets =
     s3_script_header @ concat (map s3_script_block buckets) @ s3_script_footer \<and>
   ((\<forall>b\<in>set buckets. newline \<notin> set b) \<longrightarrow>
      lines_starting ''aws s3api put-bucket-logging'' (generate_s3_logging_script buckets) =
        replicate (length buckets) s3_command_line \<and>
      lines_starting ''    --bucket "'' (generate_s3_logging_script buckets) =
        map s3_bucket_line buckets)\<close>
proof (intro conjI impI)
  show "generate_s3_logging_script buckets =
     s3_script_header @ concat (map s3_script_block buckets) @ s3_script_footer"
    by (simp add: generate_s3_logging_script_def s3_script_loop_eq)
next
  assume ok: "\<forall>b\<in>set buckets. newline \<notin> set b"
  show "lines_starting ''aws s3api put-bucket-logging'' (generate_s3_logging_script buckets) =
        replicate (length buckets) s3_command_line"
    unfolding lines_starting_def lines_of_s3_script [OF ok] filter_append
      filter_s3_command_lines
    by (simp add: s3_command_prefixes)
  show \<open>lines_starting ''    --bucket "'' (generate_s3_logging_script buckets) =
        map s3_bucket_line buckets\<close>
    unfolding lines_starting_def lines_of_s3_script [OF ok] filter_append
      filter_s3_bucket_lines
    by (simp add: s3_bucket_prefixes)
qed

text \<open>The hypothesis of C7 holds for two ordinary bucket names.\<close>

theorem generate_s3_logging_script_invocations_witness:
  \<open>newline \<notin> set ''bucket1'' \<and> newline \<notin> set ''bucket2'' \<and>
   lines_starting ''aws s3api put-bucket-logging''
     (generate_s3_logging_script [''bucket1'', ''bucket2'']) =
     [s3_command_line, s3_command_line] \<and>
   lines_starting ''    --bucket "'' (generate_s3_logging_script [''bucket1'', ''bucket2'']) =
     [s3_bucket_line ''bucket1'', s3_bucket_line ''bucket2'']\<close>
proof -
  have ok: "\<forall>b\<in>set [''bucket1'', ''bucket2'']. newline \<notin> set b"
    by (simp add: newline_def)
  note T = generate_s3_logging_script_invocations [of "[''bucket1'', ''bucket2'']",
      THEN conjunct2, THEN mp, OF ok]
  show ?thesis
    using T by (simp add: newline_def)
qed

section \<open>Properties of the float operations\<close>

lemma pow2_powi: "pow2 e = 2 powi e"
proof (cases "0 \<le> e")
  case True
  then show ?thesis by (simp add: pow2_def power_int_def)
next
  case False
  have "inverse (2::rat) ^ n = 1 / 2 ^ n" for n
    by (simp add: inverse_eq_divide power_one_over)
  with False show ?thesis by (simp add: pow2_def power_int_def)
qed

lemma pow2_pos: "0 < pow2 e"
  by (simp add: pow2_powi)

lemma pow2_mono: "a \<le> b \<Longrightarrow> pow2 a \<le> pow2 b"
  unfolding pow2_powi by (rule power_int_increasing) simp_all

lemma pow2_strict_mono: "a < b \<Longrightarrow> pow2 a < pow2 b"
  unfolding pow2_powi by (rule power_int_strict_increasing) simp_all

lemma pow2_add: "pow2 (a + b) = pow2 a * pow2 b"
  unfolding pow2_powi by (simp add: power_int_add)

lemma round_half_even_of_int: "round_half_even (of_int n) = n"
  by (simp add: round_half_even_def)

lemma round_half_even_cases:
  "round_half_even y = \<lfloor>y\<rfloor> \<or> round_half_even y = \<lfloor>y\<rfloor> + 1"
  by (simp add: round_half_even_def Let_def)

lemma round_half_even_mono:
  assumes "x \<le> y"
  shows "round_half_even x \<le> round_half_even y"
proof (cases "\<lfloor>x\<rfloor> = \<lfloor>y\<rfloor>")
  case True
  have "x - of_int \<lfloor>x\<rfloor> \<le> y - of_int \<lfloor>x\<rfloor>" using assms by simp
  then show ?thesis
    unfolding round_half_even_def Let_def True [symmetric]
    by auto
next
  case False
  with assms have "\<lfloor>x\<rfloor> < \<lfloor>y\<rfloor>"
    using floor_mono [OF assms] by linarith
  moreover have "round_half_even x \<le> \<lfloor>x\<rfloor> + 1"
    using round_half_even_cases [of x] by linarith
  moreover have "\<lfloor>y\<rfloor> \<le> round_half_even y"
    using round_half_even_cases [of y] by linarith
  ultimately show ?thesis by linarith
qed

lemma pow2_nonneg_exp: "0 \<le> e \<Longrightarrow> pow2 e = 2 ^ nat e"
  by (simp add: pow2_def)

lemma pow2_neg_exp: "e \<le> 0 \<Longrightarrow> pow2 e = 1 / 2 ^ nat (- e)"
  by (cases "e = 0") (simp_all add: pow2_def)

lemma binade_bounds:
  assumes "0 < x"
  shows "pow2 (binade x) \<le> x" and "x < pow2 (binade x + 1)"
proof -
  have "pow2 (binade x) \<le> x \<and> x < pow2 (binade x + 1)"
  proof (cases "1 \<le> x")
    case True
    define m where "m = \<lfloor>x\<rfloor>"
    have m: "0 < m" "of_int m \<le> x" "x < of_int m + 1"
      using True unfolding m_def by linarith+
    have b: "2 ^ nat (bitlen m - 1) \<le> m" "m < 2 ^ nat (bitlen m)"
      using bitlen_bounds [OF m(1)] by simp_all
    have pos: "1 \<le> bitlen m"
      using m(1) by (simp add: bitlen_alt_def)
    have e: "binade x = bitlen m - 1"
      using True by (simp add: binade_def m_def)
    have "(2::rat) ^ nat (bitlen m - 1) \<le> of_int m"
      using b(1) by simp
    then have "(2::rat) ^ nat (bitlen m - 1) \<le> x"
      using m(2) by linarith
    then have lo: "pow2 (binade x) \<le> x"
      using pos by (simp add: e pow2_nonneg_exp)
    have "m + 1 \<le> 2 ^ nat (bitlen m)" using b(2) by simp
    then have "(of_int (m + 1) :: rat) \<le> 2 ^ nat (bitlen m)"
      by (simp only: of_int_le_numeral_power_cancel_iff)
    then have "x < 2 ^ nat (bitlen m)" using m(3) by simp
    then have hi: "x < pow2 (binade x + 1)"
      using pos by (simp add: e pow2_nonneg_exp)
    from lo hi show ?thesis ..
  next
    case False
    define y where "y = 1 / x"
    define k where "k = \<lceil>y\<rceil> - 1"
    have y: "1 < y" using False assms by (simp add: y_def)
    have k: "0 < k" "of_int k < y" "y \<le> of_int k + 1"
      using y unfolding k_def by linarith+
    have b: "2 ^ nat (bitlen k - 1) \<le> k" "k < 2 ^ nat (bitlen k)"
      using bitlen_bounds [OF k(1)] by simp_all
    have pos: "1 \<le> bitlen k"
      using k(1) by (simp add: bitlen_alt_def)
    have e: "binade x = - bitlen k"
      using False by (simp add: binade_def k_def y_def)
    have "k + 1 \<le> 2 ^ nat (bitlen k)" using b(2) by simp
    then have "(of_int (k + 1) :: rat) \<le> 2 ^ nat (bitlen k)"
      by (simp only: of_int_le_numeral_power_cancel_iff)
    then have "y \<le> 2 ^ nat (bitlen k)" using k(3) by simp
    then have "1 / 2 ^ nat (bitlen k) \<le> x"
      using assms by (simp add: y_def field_simps)
    then have lo: "pow2 (binade x) \<le> x"
      using pos by (simp add: e pow2_neg_exp)
    have "(2::rat) ^ nat (bitlen k - 1) \<le> of_int k"
      using b(1) by simp
    then have "2 ^ nat (bitlen k - 1) < y" using k(2) by linarith
    then have "x < 1 / 2 ^ nat (bitlen k - 1)"
      using assms by (simp add: y_def field_simps)
    moreover have "pow2 (binade x + 1) = 1 / 2 ^ nat (bitlen k - 1)"
      using pos by (simp add: e pow2_neg_exp)
    ultimately have hi: "x < pow2 (binade x + 1)" by simp
    from lo hi show ?thesis ..
  qed
  then show "pow2 (binade x) \<le> x" and "x < pow2 (binade x + 1)" by simp_all
qed

lemma binade_mono:
  assumes "0 < x" "x \<le> y"
  shows "binade x \<le> binade y"
proof (rule ccontr)
  assume "\<not> ?thesis"
  then have "binade y + 1 \<le> binade x" by simp
  then have "pow2 (binade y + 1) \<le> pow2 (binade x)" by (rule pow2_mono)
  moreover have "y < pow2 (binade y + 1)" using assms by (intro binade_bounds) simp
  moreover have "pow2 (binade x) \<le> x" using assms by (intro binade_bounds)
  ultimately show False using assms by linarith
qed

lemma pow2_52: "pow2 e = 2 ^ 52 * pow2 (e - 52)"
proof -
  have "pow2 e = pow2 (52 + (e - 52))" by simp
  also have "\<dots> = pow2 52 * pow2 (e - 52)" by (rule pow2_add)
  finally show ?thesis by (simp add: pow2_def)
qed

lemma round_positive_bounds:
  assumes "0 < x"
  shows "pow2 (binade x) \<le> round_positive x" and "round_positive x \<le> pow2 (binade x + 1)"
proof -
  define u where "u = pow2 (binade x - 52)"
  have u: "0 < u" by (simp add: u_def pow2_pos)
  have lo: "2 ^ 52 * u \<le> x"
    using binade_bounds(1) [OF assms] pow2_52 [of "binade x"] by (simp add: u_def)
  have hi: "x \<le> 2 ^ 53 * u"
    using binade_bounds(2) [OF assms] pow2_52 [of "binade x + 1"] pow2_add [of 1 "binade x - 52"]
    by (simp add: u_def pow2_def add.commute)
  have "of_int (2 ^ 52) \<le> x / u" using lo u by (simp add: field_simps)
  then have "round_half_even (of_int (2 ^ 52)) \<le> round_half_even (x / u)"
    by (rule round_half_even_mono)
  then have "2 ^ 52 \<le> round_half_even (x / u)"
    by (simp only: round_half_even_of_int)
  then have "(2::rat) ^ 52 \<le> of_int (round_half_even (x / u))"
    by simp
  then have "2 ^ 52 * u \<le> of_int (round_half_even (x / u)) * u"
    using u by simp
  then show "pow2 (binade x) \<le> round_positive x"
    using pow2_52 [of "binade x"] by (simp add: round_positive_def u_def Let_def)
  have "x / u \<le> of_int (2 ^ 53)" using hi u by (simp add: field_simps)
  then have "round_half_even (x / u) \<le> round_half_even (of_int (2 ^ 53))"
    by (rule round_half_even_mono)
  then have "round_half_even (x / u) \<le> 2 ^ 53"
    by (simp only: round_half_even_of_int)
  then have "of_int (round_half_even (x / u)) \<le> (2::rat) ^ 53"
    by simp
  then have "of_int (round_half_even (x / u)) * u \<le> 2 ^ 53 * u"
    using u by simp
  moreover have "pow2 (binade x + 1) = 2 ^ 53 * u"
    using pow2_52 [of "binade x + 1"] pow2_add [of 1 "binade x - 52"]
    by (simp add: u_def pow2_def add.commute)
  ultimately show "round_positive x \<le> pow2 (binade x + 1)"
    by (simp add: round_positive_def u_def Let_def)
qed

lemma round_positive_mono:
  assumes "0 < x" "x \<le> y"
  shows "round_positive x \<le> round_positive y"
proof (cases "binade x = binade y")
  case True
  define u where "u = pow2 (binade y - 52)"
  have u: "0 < u" by (simp add: u_def pow2_pos)
  have "x / u \<le> y / u" using assms u by (simp add: divide_right_mono)
  then have "round_half_even (x / u) \<le> round_half_even (y / u)"
    by (rule round_half_even_mono)
  then have "(of_int (round_half_even (x / u)) :: rat) \<le> of_int (round_half_even (y / u))"
    by simp
  then have "of_int (round_half_even (x / u)) * u \<le> of_int (round_half_even (y / u)) * u"
    using u by simp
  then show ?thesis by (simp add: round_positive_def True u_def Let_def)
next
  case False
  with binade_mono [OF assms] have "binade x + 1 \<le> binade y" by simp
  then have "pow2 (binade x + 1) \<le> pow2 (binade y)" by (rule pow2_mono)
  moreover have "round_positive x \<le> pow2 (binade x + 1)"
    using assms by (intro round_positive_bounds)
  moreover have "pow2 (binade y) \<le> round_positive y"
    using assms by (intro round_positive_bounds) simp
  ultimately show ?thesis by linarith
qed

lemma round_positive_pos: "0 < x \<Longrightarrow> 0 < round_positive x"
  using round_positive_bounds(1) [of x] pow2_pos [of "binade x"] by linarith

lemma round_to_double_mono:
  assumes "x \<le> y"
  shows "round_to_double x \<le> round_to_double y"
proof -
  consider "0 < x" | "x = 0" | "x < 0" "y < 0" | "x < 0" "y = 0" | "x < 0" "0 < y"
    using assms by linarith
  then show ?thesis
  proof cases
    case 1
    then show ?thesis using assms by (simp add: round_to_double_def round_positive_mono)
  next
    case 2
    then show ?thesis
      using assms round_positive_pos [of y]
      by (cases "y = 0") (simp_all add: round_to_double_def less_imp_le)
  next
    case 3
    then have "round_positive (- y) \<le> round_positive (- x)"
      using assms by (intro round_positive_mono) simp_all
    with 3 show ?thesis by (simp add: round_to_double_def)
  next
    case 4
    then show ?thesis
      using round_positive_pos [of "- x"] by (simp add: round_to_double_def less_imp_le)
  next
    case 5
    then show ?thesis
      using round_positive_pos [of "- x"] round_positive_pos [of y]
      by (simp add: round_to_double_def)
  qed
qed

lemma round_to_double_zero: "round_to_double 0 = 0"
  by (simp add: round_to_double_def)

lemma round_to_double_100: "round_to_double 100 = 100"
  by code_simp

section \<open>Properties of the compliance scorer\<close>

lemma weigh_issues_eq:
  "weigh_issues xs w = w + (\<Sum>i\<leftarrow>xs. severity_weight (severity i))"
  by (induction xs arbitrary: w) simp_all

lemma weigh_categories_eq:
  "weigh_categories (findings_items f) 0 = Inr (weighted_issue_sum f)"
  by (simp add: findings_items_def get_issues_def weigh_issues_eq weighted_issue_sum_def
      issues_of_report_def)

lemma calculate_compliance_score_eq:
  "calculate_compliance_score f = Inr (score_of_weight (weighted_issue_sum f))"
  by (simp add: calculate_compliance_score_def weigh_categories_eq)

lemma severity_weight_values:
  "severity_weight ''HIGH'' = 3" "severity_weight ''MEDIUM'' = 2" "severity_weight ''LOW'' = 1"
  by (simp_all add: severity_weight_def severity_weights_def)

lemma severity_weight_pos: "1 \<le> severity_weight s"
  by (simp add: severity_weight_def severity_weights_def)

lemma weighted_issue_sum_nonneg: "0 \<le> weighted_issue_sum f"
  unfolding weighted_issue_sum_def
  by (rule sum_list_nonneg) (use severity_weight_pos in \<open>auto intro: order_trans [of 0 1]\<close>)

lemma py_int_mono:
  assumes "a \<le> b"
  shows "py_int a \<le> py_int b"
proof -
  consider "0 \<le> a" | "a < 0" "b < 0" | "a < 0" "0 \<le> b"
    by linarith
  then show ?thesis
  proof cases
    case 1
    then show ?thesis using assms by (simp add: py_int_def floor_mono)
  next
    case 2
    then show ?thesis using assms by (simp add: py_int_def ceiling_mono)
  next
    case 3
    then have "\<lceil>a\<rceil> \<le> 0" "0 \<le> \<lfloor>b\<rfloor>" by (simp_all add: ceiling_le_zero)
    then have "\<lceil>a\<rceil> \<le> \<lfloor>b\<rfloor>" by (rule order_trans)
    with 3 show ?thesis by (simp add: py_int_def)
  qed
qed

lemma py_max_mono: "a \<le> b \<Longrightarrow> py_max 0 a \<le> py_max 0 b"
  by (simp add: py_max_def)

lemma score_of_weight_antimono:
  assumes "w \<le> w'"
  shows "score_of_weight w' \<le> score_of_weight w"
proof -
  have "(of_int w :: rat) / of_int max_possible_issues \<le> of_int w' / of_int max_possible_issues"
    using assms by (simp add: max_possible_issues_def divide_right_mono)
  then have "float_truediv w max_possible_issues \<le> float_truediv w' max_possible_issues"
    unfolding float_truediv_def by (rule round_to_double_mono)
  then have "float_truediv w max_possible_issues * 100 \<le> float_truediv w' max_possible_issues * 100"
    by simp
  then have "float_mul (float_truediv w max_possible_issues) 100 \<le>
      float_mul (float_truediv w' max_possible_issues) 100"
    unfolding float_mul_def by (rule round_to_double_mono)
  then have "100 - float_mul (float_truediv w' max_possible_issues) 100 \<le>
      100 - float_mul (float_truediv w max_possible_issues) 100"
    by simp
  then have "float_sub 100 (float_mul (float_truediv w' max_possible_issues) 100) \<le>
      float_sub 100 (float_mul (float_truediv w max_possible_issues) 100)"
    unfolding float_sub_def by (rule round_to_double_mono)
  then show ?thesis
    unfolding score_of_weight_def by (intro py_int_mono py_max_mono)
qed

lemma score_of_weight_zero: "score_of_weight 0 = 100"
  by (simp add: score_of_weight_def float_truediv_def float_mul_def float_sub_def
      round_to_double_zero round_to_double_100 py_max_def py_int_def)

lemma score_of_weight_nonneg: "0 \<le> score_of_weight w"
  by (simp add: score_of_weight_def py_max_def py_int_def)

lemma score_of_weight_le_100: "0 \<le> w \<Longrightarrow> score_of_weight w \<le> 100"
  using score_of_weight_antimono [of 0 w] by (simp add: score_of_weight_zero)

lemma score_of_weight_28: "score_of_weight 28 = 43"
  by code_simp

lemma score_of_weight_50: "score_of_weight 50 = 0"
  by code_simp

lemma score_of_weight_floor:
  assumes "50 \<le> w"
  shows "score_of_weight w = 0"
proof -
  have "score_of_weight w \<le> score_of_weight 50"
    using assms by (rule score_of_weight_antimono)
  with score_of_weight_nonneg [of w] show ?thesis
    by (simp add: score_of_weight_50)
qed

lemma weighted_issue_sum_insert_issue:
  "weighted_issue_sum (insert_issue service n i f) =
     weighted_issue_sum f +
     (if service \<in> set [''cloudtrail'', ''s3_logging'', ''cloudwatch_logs'', ''rds_logging'',
                       ''iam_logging'']
      then severity_weight (severity i) else 0)"
proof -
  have ins: "(\<Sum>j\<leftarrow>insert_at n i xs. severity_weight (severity j)) =
      (\<Sum>j\<leftarrow>xs. severity_weight (severity j)) + severity_weight (severity i)" for xs
  proof -
    have "map (\<lambda>j. severity_weight (severity j)) (take n xs) @
        map (\<lambda>j. severity_weight (severity j)) (drop n xs) =
        map (\<lambda>j. severity_weight (severity j)) xs"
      by (simp only: map_append [symmetric] append_take_drop_id)
    then have "(\<Sum>j\<leftarrow>take n xs. severity_weight (severity j)) +
        (\<Sum>j\<leftarrow>drop n xs. severity_weight (severity j)) =
        (\<Sum>j\<leftarrow>xs. severity_weight (severity j))"
      by (metis sum_list_append)
    then show ?thesis by (simp add: insert_at_def)
  qed
  show ?thesis
    by (simp add: insert_issue_def weighted_issue_sum_def issues_of_report_def ins)
qed

lemma weighted_issue_sum_without_issues: "weighted_issue_sum (without_issues f) = 0"
  by (simp add: without_issues_def weighted_issue_sum_def issues_of_report_def)

text \<open>
  Claim C2. For every findings report the scorer returns
  \<^verbatim>\<open>int(max(0, 100 - (W / 50) * 100))\<close>, evaluated as Python evaluates it (a true
  division, a float product and a float difference, then the truncation), where \<open>W\<close> is
  the sum, over the issues of the five per-service lists, of the weight of the severity:
  3 for HIGH, 2 for MEDIUM, 1 for LOW (and 1 for any other string, the default of the
  lookup). Lemma \<open>score_of_weight_28\<close> shows the float rounding at work: \<open>W = 28\<close> scores
  43, where exact arithmetic would give 44.
\<close>

theorem calculate_compliance_score_formula:
  "calculate_compliance_score f =
     Inr (py_int (py_max 0
       (float_sub 100 (float_mul (float_truediv (weighted_issue_sum f) 50) 100)))) \<and>
   weighted_issue_sum f =
     (\<Sum>i\<leftarrow>issues (cloudtrail f). severity_weight (severity i)) +
     (\<Sum>i\<leftarrow>issues (s3_logging f). severity_weight (severity i)) +
     (\<Sum>i\<leftarrow>issues (cloudwatch_logs f). severity_weight (severity i)) +
     (\<Sum>i\<leftarrow>issues (rds_logging f). severity_weight (severity i)) +
     (\<Sum>i\<leftarrow>issues (iam_logging f). severity_weight (severity i)) \<and>
   severity_weight ''HIGH'' = 3 \<and> severity_weight ''MEDIUM'' = 2 \<and>
   severity_weight ''LOW'' = 1"
proof -
  have "calculate_compliance_score f =
     Inr (py_int (py_max 0
       (float_sub 100 (float_mul (float_truediv (weighted_issue_sum f) 50) 100))))"
    by (simp add: calculate_compliance_score_eq score_of_weight_def max_possible_issues_def)
  moreover have "weighted_issue_sum f =
     (\<Sum>i\<leftarrow>issues (cloudtrail f). severity_weight (severity i)) +
     (\<Sum>i\<leftarrow>issues (s3_logging f). severity_weight (severity i)) +
     (\<Sum>i\<leftarrow>issues (cloudwatch_logs f). severity_weight (severity i)) +
     (\<Sum>i\<leftarrow>issues (rds_logging f). severity_weight (severity i)) +
     (\<Sum>i\<leftarrow>issues (iam_logging f). severity_weight (severity i))"
    by (simp add: weighted_issue_sum_def issues_of_report_def)
  ultimately show ?thesis
    using severity_weight_values by simp
qed

text \<open>
  Claim C3. For every findings report the score lies between 0 and 100; the report with
  one more issue, in any service's list and at any position, never scores higher; and
  the report with all five issue lists empty scores exactly 100.
\<close>

theorem calculate_compliance_score_bounded_monotone:
  "(\<exists>s. calculate_compliance_score f = Inr s \<and> 0 \<le> s \<and> s \<le> 100) \<and>
   (\<exists>s s'. calculate_compliance_score f = Inr s \<and>
      calculate_compliance_score (insert_issue service n i f) = Inr s' \<and> s' \<le> s) \<and>
   calculate_compliance_score (without_issues f) = Inr 100"
proof -
  have "weighted_issue_sum f \<le> weighted_issue_sum (insert_issue service n i f)"
    using severity_weight_pos [of "severity i"]
    by (simp add: weighted_issue_sum_insert_issue)
  then have "score_of_weight (weighted_issue_sum (insert_issue service n i f)) \<le>
      score_of_weight (weighted_issue_sum f)"
    by (rule score_of_weight_antimono)
  moreover have "0 \<le> score_of_weight (weighted_issue_sum f)"
    by (rule score_of_weight_nonneg)
  moreover have "score_of_weight (weighted_issue_sum f) \<le> 100"
    using weighted_issue_sum_nonneg by (rule score_of_weight_le_100)
  ultimately show ?thesis
    by (simp add: calculate_compliance_score_eq weighted_issue_sum_without_issues
        score_of_weight_zero)
qed

section \<open>Properties of the finding normalizer\<close>

lemma issues_append_issue [simp]: "issues (append_issue i f) = issues f @ [i]"
  by (simp add: append_issue_def)

lemma cloudwatch_loop_issues:
  "issues (cloudwatch_loop groups f) =
     issues f @ map (\<lambda>g. cloudwatch_issue (logGroupName g))
                  (filter (\<lambda>g. retentionInDays g = None) groups)"
  by (induction groups arbitrary: f) simp_all

lemma cloudwatch_loop_names:
  "log_groups_without_retention (cloudwatch_loop groups f) =
     log_groups_without_retention f @
     map logGroupName (filter (\<lambda>g. retentionInDays g = None) groups)"
  by (induction groups arbitrary: f) (simp_all add: append_issue_def)

lemma rds_loop_issues:
  "issues (rds_loop ds f) =
     issues f @ map (\<lambda>d. rds_issue (DBInstanceIdentifier d))
                  (filter (\<lambda>d. \<not> has_log_exports d) ds)"
  by (induction ds arbitrary: f) simp_all

lemma rds_loop_names:
  "instances_without_logging (rds_loop ds f) =
     instances_without_logging f @
     map DBInstanceIdentifier (filter (\<lambda>d. \<not> has_log_exports d) ds)"
  by (induction ds arbitrary: f) (simp_all add: append_issue_def)

lemma has_log_exports_iff:
  "(\<not> has_log_exports d) =
     (EnableCloudwatchLogsExports d = None \<or> EnableCloudwatchLogsExports d = Some [])"
  by (simp add: has_log_exports_def split: option.splits)

lemma aborts_get_bucket_logging:
  "aborts env (GetBucketLogging b) =
     (case get_bucket_logging env b of
        Inr _ \<Rightarrow> None
      | Inl e \<Rightarrow>
          (case NoSuchBucketLoggingConfiguration env of
             Inl attribute_error \<Rightarrow> Some attribute_error
           | Inr is_instance \<Rightarrow> if is_instance e then None else Some e))"
  by (simp add: aborts_def raised_def split: sum.splits)

lemma aborts_other:
  "aborts env ListTrails = raised (list_trails env)"
  "aborts env (GetTrail n) = raised (get_trail env n)"
  "aborts env (GetTrailStatus n) = raised (get_trail_status env n)"
  "aborts env ListBuckets = raised (list_buckets env)"
  "aborts env DescribeLogGroups = raised (describe_log_groups env)"
  "aborts env DescribeDBInstances = raised (describe_db_instances env)"
  by (simp_all add: aborts_def split: option.splits)

lemma s3_loop_run:
  "s3_loop env bs f tr =
     (f', tr', r) \<Longrightarrow>
   issues f' =
     issues f @ map s3_issue (filter (s3_unlogged env) (takeWhile (s3_probe_ok env) bs)) \<and>
   buckets_without_logging f' =
     buckets_without_logging f @ filter (s3_unlogged env) (takeWhile (s3_probe_ok env) bs) \<and>
   tr' = tr @ map GetBucketLogging
      (takeWhile (s3_probe_ok env) bs @ take 1 (dropWhile (s3_probe_ok env) bs)) \<and>
   r = (case dropWhile (s3_probe_ok env) bs of
          [] \<Rightarrow> None | b # _ \<Rightarrow> aborts env (GetBucketLogging b))"
proof (induction bs arbitrary: f tr)
  case Nil
  then show ?case by simp
next
  case (Cons b bs)
  consider (logged) "get_bucket_logging env b = Inr True"
    | (unlogged) "get_bucket_logging env b = Inr False"
    | (handled) e is_instance where "get_bucket_logging env b = Inl e"
        "NoSuchBucketLoggingConfiguration env = Inr is_instance" "is_instance e"
    | (unhandled) e is_instance where "get_bucket_logging env b = Inl e"
        "NoSuchBucketLoggingConfiguration env = Inr is_instance" "\<not> is_instance e"
    | (lookup) e attribute_error where "get_bucket_logging env b = Inl e"
        "NoSuchBucketLoggingConfiguration env = Inl attribute_error"
    by (cases "get_bucket_logging env b"; cases "NoSuchBucketLoggingConfiguration env") auto
  then show ?case
  proof cases
    case logged
    then have ok: "s3_probe_ok env b" "\<not> s3_unlogged env b"
      by (simp_all add: s3_probe_ok_def s3_unlogged_def aborts_get_bucket_logging)
    from Cons.prems logged have
      "s3_loop env bs
         (f\<lparr>buckets_analyzed := buckets_analyzed f + 1,
            buckets_with_logging := buckets_with_logging f + 1\<rparr>)
         (tr @ [GetBucketLogging b]) = (f', tr', r)"
      by simp
    from Cons.IH [OF this] show ?thesis by (simp add: ok)
  next
    case unlogged
    then have ok: "s3_probe_ok env b" "s3_unlogged env b"
      by (simp_all add: s3_probe_ok_def s3_unlogged_def aborts_get_bucket_logging)
    from Cons.prems unlogged have
      "s3_loop env bs
         (without_logging b (f\<lparr>buckets_analyzed := buckets_analyzed f + 1\<rparr>))
         (tr @ [GetBucketLogging b]) = (f', tr', r)"
      by simp
    from Cons.IH [OF this] show ?thesis
      by (simp add: ok without_logging_def append_issue_def)
  next
    case handled
    then have ok: "s3_probe_ok env b" "s3_unlogged env b"
      by (simp_all add: s3_probe_ok_def s3_unlogged_def aborts_get_bucket_logging)
    from Cons.prems handled have
      "s3_loop env bs
         (without_logging b (f\<lparr>buckets_analyzed := buckets_analyzed f + 1\<rparr>))
         (tr @ [GetBucketLogging b]) = (f', tr', r)"
      by simp
    from Cons.IH [OF this] show ?thesis
      by (simp add: ok without_logging_def append_issue_def)
  next
    case unhandled
    then have ok: "\<not> s3_probe_ok env b" "aborts env (GetBucketLogging b) = Some e"
      by (simp_all add: s3_probe_ok_def aborts_get_bucket_logging)
    from Cons.prems unhandled show ?thesis by (auto simp: ok)
  next
    case lookup
    then have ok: "\<not> s3_probe_ok env b"
      "aborts env (GetBucketLogging b) = Some attribute_error"
      by (simp_all add: s3_probe_ok_def aborts_get_bucket_logging)
    from Cons.prems lookup show ?thesis by (auto simp: ok)
  qed
qed

lemma stops_at_failure_prepend:
  assumes "stops_at_failure env calls r" "list_all (\<lambda>c. aborts env c = None) pre"
  shows "stops_at_failure env (pre @ calls) r"
  using assms
  by (cases r) (auto simp: stops_at_failure_def butlast_append)

lemma stops_at_failure_last:
  assumes "stops_at_failure env calls r" "calls \<noteq> []"
  shows "list_all (\<lambda>c. aborts env c = None) (butlast calls)"
    and "aborts env (last calls) = r"
proof -
  show "list_all (\<lambda>c. aborts env c = None) (butlast calls)"
    using assms by (cases r) (auto simp: stops_at_failure_def list_all_iff dest: in_set_butlastD)
  show "aborts env (last calls) = r"
    using assms by (cases r) (auto simp: stops_at_failure_def list_all_iff)
qed

lemma synthetic_issues_append_issue:
  "synthetic_issues (append_issue i f) =
     synthetic_issues f @ (if prefix ''Error analyzing '' (description i) then [i] else [])"
  by (simp add: synthetic_issues_def)

lemma ordinary_issues:
  "\<not> prefix ''Error analyzing '' (description no_trails_issue)"
  "\<not> prefix ''Error analyzing '' (description (no_validation_issue n))"
  "\<not> prefix ''Error analyzing '' (description (not_logging_issue n))"
  "\<not> prefix ''Error analyzing '' (description (s3_issue n))"
  "\<not> prefix ''Error analyzing '' (description (cloudwatch_issue n))"
  "\<not> prefix ''Error analyzing '' (description (rds_issue n))"
  "\<not> prefix ''Error analyzing '' (description credential_report_issue)"
  "\<not> prefix ''Error analyzing '' (description access_analyzer_issue)"
  "\<not> prefix ''Error analyzing '' (description access_analyzer_unavailable_issue)"
  by (simp_all add: no_trails_issue_def no_validation_issue_def not_logging_issue_def
      s3_issue_def cloudwatch_issue_def rds_issue_def credential_report_issue_def
      access_analyzer_issue_def access_analyzer_unavailable_issue_def)

lemma error_issue_synthetic:
  "prefix ''Error analyzing '' (description (error_issue service ref advice e))"
  by (simp add: error_issue_def)

lemma error_issues_synthetic:
  "prefix ''Error analyzing '' (description (cloudtrail_error_issue e))"
  "prefix ''Error analyzing '' (description (s3_error_issue e))"
  "prefix ''Error analyzing '' (description (cloudwatch_error_issue e))"
  "prefix ''Error analyzing '' (description (rds_error_issue e))"
  by (simp_all add: cloudtrail_error_issue_def s3_error_issue_def cloudwatch_error_issue_def
      rds_error_issue_def error_issue_synthetic)

lemma synthetic_issues_update [simp]:
  "synthetic_issues (f\<lparr>enabled := a\<rparr>) = synthetic_issues f"
  "synthetic_issues (f\<lparr>multi_region := a\<rparr>) = synthetic_issues f"
  "synthetic_issues (f\<lparr>log_file_validation := a\<rparr>) = synthetic_issues f"
  "synthetic_issues (f\<lparr>s3_bucket := b\<rparr>) = synthetic_issues f"
  by (simp_all add: synthetic_issues_def)

lemma cloudtrail_loop_run:
  "cloudtrail_loop env names f tr = (f', tr', r) \<Longrightarrow>
   \<exists>calls. tr' = tr @ calls \<and> stops_at_failure env calls r \<and>
     synthetic_issues f' = synthetic_issues f \<and>
     issues f' = issues f @ concat (map (trail_issues env) (takeWhile (trail_ok env) names))"
proof (induction names arbitrary: f tr)
  case Nil
  then show ?case by (simp add: stops_at_failure_def)
next
  case (Cons n names)
  show ?case
  proof (cases "get_trail env n")
    case (Inl e)
    with Cons.prems have "f' = f" "tr' = tr @ [GetTrail n]" "r = Some e" by simp_all
    moreover have "stops_at_failure env [GetTrail n] (Some e)"
      using Inl by (simp add: stops_at_failure_def aborts_other raised_def)
    moreover have "\<not> trail_ok env n"
      using Inl by (simp add: trail_ok_def aborts_other raised_def)
    ultimately show ?thesis by auto
  next
    case info: (Inr trail_info)
    show ?thesis
    proof (cases "get_trail_status env n")
      case (Inl e)
      with Cons.prems info have "f' = f" "tr' = tr @ [GetTrail n, GetTrailStatus n]" "r = Some e"
        by simp_all
      moreover have "stops_at_failure env [GetTrail n, GetTrailStatus n] (Some e)"
        using Inl info by (simp add: stops_at_failure_def aborts_other raised_def)
      moreover have "\<not> trail_ok env n"
        using Inl by (simp add: trail_ok_def aborts_other raised_def)
      ultimately show ?thesis by auto
    next
      case (Inr is_logging)
      have pre: "list_all (\<lambda>c. aborts env c = None) [GetTrail n, GetTrailStatus n]"
        using Inr info by (simp add: aborts_other raised_def)
      have ok: "trail_ok env n"
        using Inr info by (simp add: trail_ok_def aborts_other raised_def)
      obtain g where step: "cloudtrail_loop env names g (tr @ [GetTrail n, GetTrailStatus n]) =
          (f', tr', r)" and g: "synthetic_issues g = synthetic_issues f"
        and gi: "issues g = issues f @ trail_issues env n"
        using Cons.prems info Inr
        by (cases is_logging)
          (auto simp: synthetic_issues_append_issue ordinary_issues trail_issues_def)
      from Cons.IH [OF step] obtain calls where calls:
        "tr' = (tr @ [GetTrail n, GetTrailStatus n]) @ calls"
        "stops_at_failure env calls r" "synthetic_issues f' = synthetic_issues g"
        "issues f' = issues g @ concat (map (trail_issues env) (takeWhile (trail_ok env) names))"
        by blast
      have "stops_at_failure env ([GetTrail n, GetTrailStatus n] @ calls) r"
        using calls(2) pre by (rule stops_at_failure_prepend)
      with calls g gi ok show ?thesis by auto
    qed
  qed
qed

lemma synthetic_issues_initial:
  "synthetic_issues cloudtrail_initial = []" "synthetic_issues s3_initial = []"
  "synthetic_issues cloudwatch_initial = []" "synthetic_issues rds_initial = []"
  "synthetic_issues iam_initial = []"
  by (simp_all add: synthetic_issues_def cloudtrail_initial_def s3_initial_def
      cloudwatch_initial_def rds_initial_def iam_initial_def)

lemma issues_initial:
  "issues cloudtrail_initial = []" "issues s3_initial = []"
  "issues cloudwatch_initial = []" "issues rds_initial = []"
  by (simp_all add: cloudtrail_initial_def s3_initial_def cloudwatch_initial_def
      rds_initial_def)

lemma analyze_cloudtrail_run:
  "snd (analyze_cloudtrail env) \<noteq> [] \<and>
   hd (snd (analyze_cloudtrail env)) = ListTrails \<and>
   list_all (\<lambda>c. aborts env c = None) (butlast (snd (analyze_cloudtrail env))) \<and>
   synthetic_issues (fst (analyze_cloudtrail env)) =
     (case aborts env (last (snd (analyze_cloudtrail env))) of
        None \<Rightarrow> [] | Some e \<Rightarrow> [cloudtrail_error_issue e]) \<and>
   issues (fst (analyze_cloudtrail env)) =
     cloudtrail_recorded env @
     (case aborts env (last (snd (analyze_cloudtrail env))) of
        None \<Rightarrow> [] | Some e \<Rightarrow> [cloudtrail_error_issue e])"
proof (cases "list_trails env")
  case (Inl e)
  then show ?thesis
    by (simp add: analyze_cloudtrail_def aborts_other raised_def synthetic_issues_append_issue
        synthetic_issues_initial error_issues_synthetic cloudtrail_recorded_def
        issues_initial)
next
  case (Inr trails)
  show ?thesis
  proof (cases "trails = []")
    case True
    with Inr show ?thesis
      by (simp add: analyze_cloudtrail_def aborts_other raised_def
          synthetic_issues_append_issue synthetic_issues_initial ordinary_issues
          cloudtrail_recorded_def issues_initial)
  next
    case False
    obtain f' tr' r where loop:
      "cloudtrail_loop env trails cloudtrail_initial [ListTrails] = (f', tr', r)"
      by (cases "cloudtrail_loop env trails cloudtrail_initial [ListTrails]") auto
    from cloudtrail_loop_run [OF this] obtain calls where calls:
      "tr' = [ListTrails] @ calls" "stops_at_failure env calls r"
      "synthetic_issues f' = []"
      "issues f' = concat (map (trail_issues env) (takeWhile (trail_ok env) trails))"
      by (auto simp: synthetic_issues_initial issues_initial)
    have "list_all (\<lambda>c. aborts env c = None) [ListTrails]"
      using Inr by (simp add: aborts_other raised_def)
    with calls(2) have run: "stops_at_failure env tr' r"
      unfolding calls(1) by (rule stops_at_failure_prepend)
    have ne: "tr' \<noteq> []" using calls(1) by simp
    note facts = stops_at_failure_last [OF run ne]
    have tr: "snd (analyze_cloudtrail env) = tr'"
      using Inr False loop by (cases r) (simp_all add: analyze_cloudtrail_def)
    have syn: "synthetic_issues (fst (analyze_cloudtrail env)) =
        (case r of None \<Rightarrow> [] | Some e \<Rightarrow> [cloudtrail_error_issue e])"
      using Inr False loop calls(3)
      by (cases r) (simp_all add: analyze_cloudtrail_def synthetic_issues_append_issue
          error_issues_synthetic)
    have iss: "issues (fst (analyze_cloudtrail env)) =
        cloudtrail_recorded env @
        (case r of None \<Rightarrow> [] | Some e \<Rightarrow> [cloudtrail_error_issue e])"
      using Inr False loop calls(4)
      by (cases r) (simp_all add: analyze_cloudtrail_def cloudtrail_recorded_def)
    show ?thesis
      unfolding tr syn iss using facts ne calls(1) by simp
  qed
qed

lemma s3_trace_stops:
  "stops_at_failure env
     (map GetBucketLogging
        (takeWhile (s3_probe_ok env) bs @ take 1 (dropWhile (s3_probe_ok env) bs)))
     (case dropWhile (s3_probe_ok env) bs of
        [] \<Rightarrow> None | b # _ \<Rightarrow> aborts env (GetBucketLogging b))"
proof -
  have ok: "list_all (\<lambda>c. aborts env c = None)
      (map GetBucketLogging (takeWhile (s3_probe_ok env) bs))"
    by (auto simp: list_all_iff s3_probe_ok_def dest: set_takeWhileD)
  show ?thesis
  proof (cases "dropWhile (s3_probe_ok env) bs")
    case Nil
    show ?thesis
      unfolding Nil using ok by (simp add: stops_at_failure_def)
  next
    case (Cons b rest)
    then have "\<not> s3_probe_ok env b"
      using hd_dropWhile [of "s3_probe_ok env" bs] by simp
    then obtain e where e: "aborts env (GetBucketLogging b) = Some e"
      by (auto simp: s3_probe_ok_def)
    show ?thesis
      unfolding Cons using ok e by (simp add: stops_at_failure_def butlast_append)
  qed
qed

lemma synthetic_issues_cong: "issues f = issues g \<Longrightarrow> synthetic_issues f = synthetic_issues g"
  by (simp add: synthetic_issues_def)

lemma analyze_s3_logging_run:
  "snd (analyze_s3_logging env) \<noteq> [] \<and>
   hd (snd (analyze_s3_logging env)) = ListBuckets \<and>
   list_all (\<lambda>c. aborts env c = None) (butlast (snd (analyze_s3_logging env))) \<and>
   synthetic_issues (fst (analyze_s3_logging env)) =
     (case aborts env (last (snd (analyze_s3_logging env))) of
        None \<Rightarrow> [] | Some e \<Rightarrow> [s3_error_issue e]) \<and>
   issues (fst (analyze_s3_logging env)) =
     s3_recorded env @
     (case aborts env (last (snd (analyze_s3_logging env))) of
        None \<Rightarrow> [] | Some e \<Rightarrow> [s3_error_issue e])"
proof (cases "list_buckets env")
  case (Inl e)
  then show ?thesis
    by (simp add: analyze_s3_logging_def aborts_other raised_def synthetic_issues_append_issue
        synthetic_issues_initial error_issues_synthetic s3_recorded_def issues_initial)
next
  case (Inr bs)
  obtain f' tr' r where loop: "s3_loop env bs s3_initial [ListBuckets] = (f', tr', r)"
    by (cases "s3_loop env bs s3_initial [ListBuckets]") auto
  note L = s3_loop_run [OF loop]
  define calls where "calls = map GetBucketLogging
      (takeWhile (s3_probe_ok env) bs @ take 1 (dropWhile (s3_probe_ok env) bs))"
  have tr': "tr' = [ListBuckets] @ calls" using L by (simp add: calls_def)
  have r: "stops_at_failure env calls r"
    using L s3_trace_stops [of env bs] by (simp add: calls_def)
  have "list_all (\<lambda>c. aborts env c = None) [ListBuckets]"
    using Inr by (simp add: aborts_other raised_def)
  with r have run: "stops_at_failure env tr' r"
    unfolding tr' by (rule stops_at_failure_prepend)
  have ne: "tr' \<noteq> []" using tr' by simp
  note facts = stops_at_failure_last [OF run ne]
  have rec: "issues f' = s3_recorded env"
    using L Inr by (simp add: s3_initial_def s3_recorded_def)
  have "issues f' = map s3_issue (filter (s3_unlogged env) (takeWhile (s3_probe_ok env) bs))"
    using L by (simp add: s3_initial_def)
  then have syn0: "synthetic_issues f' = []"
    by (simp add: synthetic_issues_def filter_empty_conv ordinary_issues)
  have tr: "snd (analyze_s3_logging env) = tr'"
    using Inr loop by (cases r) (simp_all add: analyze_s3_logging_def)
  have syn: "synthetic_issues (fst (analyze_s3_logging env)) =
      (case r of None \<Rightarrow> [] | Some e \<Rightarrow> [s3_error_issue e])"
    using Inr loop syn0
    by (cases r) (simp_all add: analyze_s3_logging_def synthetic_issues_append_issue
        error_issues_synthetic)
  have iss: "issues (fst (analyze_s3_logging env)) =
      s3_recorded env @ (case r of None \<Rightarrow> [] | Some e \<Rightarrow> [s3_error_issue e])"
    using Inr loop rec
    by (cases r) (simp_all add: analyze_s3_logging_def)
  show ?thesis
    unfolding tr syn iss using facts ne tr' by simp
qed

lemma analyze_cloudwatch_logs_run:
  "snd (analyze_cloudwatch_logs env) = [DescribeLogGroups] \<and>
   synthetic_issues (fst (analyze_cloudwatch_logs env)) =
     (case aborts env DescribeLogGroups of
        None \<Rightarrow> [] | Some e \<Rightarrow> [cloudwatch_error_issue e]) \<and>
   issues (fst (analyze_cloudwatch_logs env)) =
     cloudwatch_recorded env @
     (case aborts env DescribeLogGroups of
        None \<Rightarrow> [] | Some e \<Rightarrow> [cloudwatch_error_issue e])"
proof (cases "describe_log_groups env")
  case (Inl e)
  then show ?thesis
    by (simp add: analyze_cloudwatch_logs_def aborts_other raised_def
        synthetic_issues_append_issue synthetic_issues_initial error_issues_synthetic
        cloudwatch_recorded_def issues_initial)
next
  case (Inr groups)
  then show ?thesis
    by (simp add: analyze_cloudwatch_logs_def aborts_other raised_def synthetic_issues_def
        cloudwatch_loop_issues cloudwatch_initial_def filter_empty_conv ordinary_issues
        cloudwatch_recorded_def)
qed

lemma analyze_rds_logging_run:
  "snd (analyze_rds_logging env) = [DescribeDBInstances] \<and>
   synthetic_issues (fst (analyze_rds_logging env)) =
     (case aborts env DescribeDBInstances of
        None \<Rightarrow> [] | Some e \<Rightarrow> [rds_error_issue e]) \<and>
   issues (fst (analyze_rds_logging env)) =
     rds_recorded env @
     (case aborts env DescribeDBInstances of
        None \<Rightarrow> [] | Some e \<Rightarrow> [rds_error_issue e])"
proof (cases "describe_db_instances env")
  case (Inl e)
  then show ?thesis
    by (simp add: analyze_rds_logging_def aborts_other raised_def
        synthetic_issues_append_issue synthetic_issues_initial error_issues_synthetic
        rds_recorded_def issues_initial)
next
  case (Inr ds)
  then show ?thesis
    by (simp add: analyze_rds_logging_def aborts_other raised_def synthetic_issues_def
        rds_loop_issues rds_initial_def filter_empty_conv ordinary_issues
        rds_recorded_def has_log_exports_iff)
qed

lemma analyze_iam_logging_run:
  "snd (analyze_iam_logging env) = [GenerateCredentialReport, ListAccessAnalyzers] \<and>
   issues (fst (analyze_iam_logging env)) =
     (case generate_credential_report env of
        Inl _ \<Rightarrow> [credential_report_issue] | Inr _ \<Rightarrow> []) @
     (case list_access_analyzers env of
        Inl _ \<Rightarrow> [access_analyzer_unavailable_issue]
      | Inr analyzers \<Rightarrow> if analyzers = [] then [access_analyzer_issue] else [])"
  by (simp add: analyze_iam_logging_def iam_body_def iam_initial_def Let_def
      split: sum.splits)

lemma run_analysis_parts:
  "snd (run_analysis env now) =
     snd (analyze_cloudtrail env) @ snd (analyze_s3_logging env) @
     snd (analyze_cloudwatch_logs env) @ snd (analyze_rds_logging env) @
     snd (analyze_iam_logging env)"
  "cloudtrail (fst (fst (run_analysis env now))) = fst (analyze_cloudtrail env)"
  "s3_logging (fst (fst (run_analysis env now))) = fst (analyze_s3_logging env)"
  "cloudwatch_logs (fst (fst (run_analysis env now))) = fst (analyze_cloudwatch_logs env)"
  "rds_logging (fst (fst (run_analysis env now))) = fst (analyze_rds_logging env)"
  "iam_logging (fst (fst (run_analysis env now))) = fst (analyze_iam_logging env)"
  "total_issues (fst (fst (run_analysis env now))) =
     int (length (issues_of_report (fst (fst (run_analysis env now)))))"
  "snd (fst (run_analysis env now)) = generate_recommendations (fst (fst (run_analysis env now)))"
  by (simp_all add: run_analysis_def Let_def split_def issues_of_report_def)

lemma s3_probes_unchanged:
  "s3_unlogged (env\<lparr>list_buckets := x\<rparr>) = s3_unlogged env"
  "s3_probe_ok (env\<lparr>list_buckets := x\<rparr>) = s3_probe_ok env"
  "aborts (env\<lparr>list_buckets := x\<rparr>) (GetBucketLogging b) = aborts env (GetBucketLogging b)"
  by (auto simp: s3_unlogged_def s3_probe_ok_def aborts_get_bucket_logging fun_eq_iff
      split: sum.splits)

lemma analyze_s3_logging_issues:
  assumes "list_buckets env = Inr buckets"
  shows "issues (fst (analyze_s3_logging env)) =
     map s3_issue (filter (s3_unlogged env) (takeWhile (s3_probe_ok env) buckets)) @
     (case dropWhile (s3_probe_ok env) buckets of
        [] \<Rightarrow> []
      | b # _ \<Rightarrow> (case aborts env (GetBucketLogging b) of
                    None \<Rightarrow> [] | Some e \<Rightarrow> [s3_error_issue e]))"
    and "buckets_without_logging (fst (analyze_s3_logging env)) =
     filter (s3_unlogged env) (takeWhile (s3_probe_ok env) buckets)"
proof -
  obtain f' tr' r where loop: "s3_loop env buckets s3_initial [ListBuckets] = (f', tr', r)"
    by (cases "s3_loop env buckets s3_initial [ListBuckets]") auto
  note L = s3_loop_run [OF loop]
  have i: "issues f' =
      map s3_issue (filter (s3_unlogged env) (takeWhile (s3_probe_ok env) buckets))"
    and w: "buckets_without_logging f' =
      filter (s3_unlogged env) (takeWhile (s3_probe_ok env) buckets)"
    and r: "r = (case dropWhile (s3_probe_ok env) buckets of
          [] \<Rightarrow> None | b # _ \<Rightarrow> aborts env (GetBucketLogging b))"
    using L by (simp_all add: s3_initial_def)
  have res: "analyze_s3_logging env =
      (case r of None \<Rightarrow> (f', tr') | Some e \<Rightarrow> (append_issue (s3_error_issue e) f', tr'))"
    using assms loop by (simp add: analyze_s3_logging_def split: option.splits)
  show "issues (fst (analyze_s3_logging env)) =
     map s3_issue (filter (s3_unlogged env) (takeWhile (s3_probe_ok env) buckets)) @
     (case dropWhile (s3_probe_ok env) buckets of
        [] \<Rightarrow> []
      | b # _ \<Rightarrow> (case aborts env (GetBucketLogging b) of
                    None \<Rightarrow> [] | Some e \<Rightarrow> [s3_error_issue e]))"
  proof (cases "dropWhile (s3_probe_ok env) buckets")
    case Nil
    from r have "r = None" unfolding Nil by simp
    then show ?thesis unfolding Nil res by (simp add: i)
  next
    case (Cons b rest)
    from r have "r = aborts env (GetBucketLogging b)" unfolding Cons by simp
    then show ?thesis
      unfolding Cons res by (cases "aborts env (GetBucketLogging b)") (simp_all add: i)
  qed
  show "buckets_without_logging (fst (analyze_s3_logging env)) =
     filter (s3_unlogged env) (takeWhile (s3_probe_ok env) buckets)"
    unfolding res by (cases r) (simp_all add: w append_issue_def)
qed

lemma issue_table:
  "severity no_trails_issue = ''HIGH''" "pci_reference no_trails_issue = ''10.2.1-10.2.7''"
  "severity (s3_issue b) = ''MEDIUM''" "pci_reference (s3_issue b) = ''10.2.1''"
  "severity (cloudwatch_issue g) = ''MEDIUM''" "pci_reference (cloudwatch_issue g) = ''10.5.1.2''"
  "severity (rds_issue d) = ''MEDIUM''" "pci_reference (rds_issue d) = ''10.2.1''"
  by (simp_all add: no_trails_issue_def s3_issue_def cloudwatch_issue_def rds_issue_def)

lemma analyze_s3_logging_payloads:
  "issues (fst (analyze_s3_logging
     (env\<lparr>list_buckets := Inr buckets,
          get_bucket_logging := \<lambda>b. Inr (logging_enabled b)\<rparr>))) =
     map s3_issue (filter (\<lambda>b. \<not> logging_enabled b) buckets)"
  "buckets_without_logging (fst (analyze_s3_logging
     (env\<lparr>list_buckets := Inr buckets,
          get_bucket_logging := \<lambda>b. Inr (logging_enabled b)\<rparr>))) =
     filter (\<lambda>b. \<not> logging_enabled b) buckets"
proof -
  define env' where
    "env' = env\<lparr>list_buckets := Inr buckets, get_bucket_logging := \<lambda>b. Inr (logging_enabled b)\<rparr>"
  have ok: "s3_probe_ok env' = (\<lambda>b. True)"
    by (simp add: fun_eq_iff s3_probe_ok_def aborts_get_bucket_logging env'_def)
  have un: "s3_unlogged env' = (\<lambda>b. \<not> logging_enabled b)"
    by (simp add: fun_eq_iff s3_unlogged_def env'_def)
  have lb: "list_buckets env' = Inr buckets" by (simp add: env'_def)
  have tw: "takeWhile (\<lambda>b. True) buckets = buckets"
    by (simp add: takeWhile_eq_all_conv)
  have dw: "dropWhile (\<lambda>b. True) buckets = []" by simp
  note A = analyze_s3_logging_issues [OF lb]
  show "issues (fst (analyze_s3_logging
     (env\<lparr>list_buckets := Inr buckets,
          get_bucket_logging := \<lambda>b. Inr (logging_enabled b)\<rparr>))) =
     map s3_issue (filter (\<lambda>b. \<not> logging_enabled b) buckets)"
    using A(1) unfolding ok un tw dw by (simp add: env'_def)
  show "buckets_without_logging (fst (analyze_s3_logging
     (env\<lparr>list_buckets := Inr buckets,
          get_bucket_logging := \<lambda>b. Inr (logging_enabled b)\<rparr>))) =
     filter (\<lambda>b. \<not> logging_enabled b) buckets"
    using A(2) unfolding ok un tw by (simp add: env'_def)
qed

lemma analyze_s3_logging_lookup_raises:
  "issues (fst (analyze_s3_logging
     (env\<lparr>list_buckets := Inr buckets,
          NoSuchBucketLoggingConfiguration := Inl attribute_error\<rparr>))) =
     map s3_issue
       (filter (\<lambda>b. get_bucket_logging env b = Inr False)
          (takeWhile (\<lambda>b. raised (get_bucket_logging env b) = None) buckets)) @
     (case dropWhile (\<lambda>b. raised (get_bucket_logging env b) = None) buckets of
        [] \<Rightarrow> []
      | b # rest \<Rightarrow> [s3_error_issue attribute_error])"
  "buckets_without_logging (fst (analyze_s3_logging
     (env\<lparr>list_buckets := Inr buckets,
          NoSuchBucketLoggingConfiguration := Inl attribute_error\<rparr>))) =
     filter (\<lambda>b. get_bucket_logging env b = Inr False)
       (takeWhile (\<lambda>b. raised (get_bucket_logging env b) = None) buckets)"
proof -
  define env' where
    "env' = env\<lparr>list_buckets := Inr buckets,
                 NoSuchBucketLoggingConfiguration := Inl attribute_error\<rparr>"
  define returns where "returns = (\<lambda>b. raised (get_bucket_logging env b) = None)"
  have ab: "aborts env' (GetBucketLogging b) =
      (if returns b then None else Some attribute_error)" for b
    by (simp add: aborts_get_bucket_logging env'_def returns_def raised_def split: sum.splits)
  have ok: "s3_probe_ok env' = returns"
    by (simp add: fun_eq_iff s3_probe_ok_def ab)
  have un: "filter (s3_unlogged env') (takeWhile returns buckets) =
      filter (\<lambda>b. get_bucket_logging env b = Inr False) (takeWhile returns buckets)"
  proof (rule filter_cong [OF refl])
    fix b assume "b \<in> set (takeWhile returns buckets)"
    then have "returns b" by (rule set_takeWhileD [THEN conjunct2])
    then obtain v where "get_bucket_logging env b = Inr v"
      by (cases "get_bucket_logging env b") (simp_all add: returns_def raised_def)
    then show "s3_unlogged env' b = (get_bucket_logging env b = Inr False)"
      by (simp add: s3_unlogged_def env'_def)
  qed
  have err: "(case dropWhile returns buckets of
        [] \<Rightarrow> []
      | b # rest \<Rightarrow> (case aborts env' (GetBucketLogging b) of
                    None \<Rightarrow> [] | Some e \<Rightarrow> [s3_error_issue e])) =
      (case dropWhile returns buckets of
        [] \<Rightarrow> []
      | b # rest \<Rightarrow> [s3_error_issue attribute_error])"
  proof (cases "dropWhile returns buckets")
    case Nil
    show ?thesis unfolding Nil by simp
  next
    case (Cons b rest)
    then have "\<not> returns b"
      using hd_dropWhile [of returns buckets] by simp
    then show ?thesis unfolding Cons by (simp add: ab)
  qed
  have lb: "list_buckets env' = Inr buckets" by (simp add: env'_def)
  note A = analyze_s3_logging_issues [OF lb]
  show "issues (fst (analyze_s3_logging
     (env\<lparr>list_buckets := Inr buckets,
          NoSuchBucketLoggingConfiguration := Inl attribute_error\<rparr>))) =
     map s3_issue
       (filter (\<lambda>b. get_bucket_logging env b = Inr False)
          (takeWhile (\<lambda>b. raised (get_bucket_logging env b) = None) buckets)) @
     (case dropWhile (\<lambda>b. raised (get_bucket_logging env b) = None) buckets of
        [] \<Rightarrow> []
      | b # rest \<Rightarrow> [s3_error_issue attribute_error])"
    using A(1) unfolding ok un err by (simp add: env'_def returns_def)
  show "buckets_without_logging (fst (analyze_s3_logging
     (env\<lparr>list_buckets := Inr buckets,
          NoSuchBucketLoggingConfiguration := Inl attribute_error\<rparr>))) =
     filter (\<lambda>b. get_bucket_logging env b = Inr False)
       (takeWhile (\<lambda>b. raised (get_bucket_logging env b) = None) buckets)"
    using A(2) unfolding ok un by (simp add: env'_def returns_def)
qed

lemma analyze_rds_logging_payload:
  "issues (fst (analyze_rds_logging (env\<lparr>describe_db_instances := Inr ds\<rparr>))) =
     map (\<lambda>d. rds_issue (DBInstanceIdentifier d))
       (filter (\<lambda>d. EnableCloudwatchLogsExports d = None
                   \<or> EnableCloudwatchLogsExports d = Some []) ds)"
  "instances_without_logging
     (fst (analyze_rds_logging (env\<lparr>describe_db_instances := Inr ds\<rparr>))) =
     map DBInstanceIdentifier
       (filter (\<lambda>d. EnableCloudwatchLogsExports d = None
                   \<or> EnableCloudwatchLogsExports d = Some []) ds)"
  "issues (fst (analyze_rds_logging
     (env\<lparr>describe_db_instances :=
            Inr (map (\<lambda>d. d\<lparr>EnableCloudwatchLogsExports := None\<rparr>) ds)\<rparr>))) =
     map (\<lambda>d. rds_issue (DBInstanceIdentifier d)) ds"
  by (simp_all add: analyze_rds_logging_def rds_loop_issues rds_loop_names rds_initial_def
      has_log_exports_iff filter_map comp_def)

lemma analyze_cloudwatch_logs_payload:
  "issues (fst (analyze_cloudwatch_logs (env\<lparr>describe_log_groups := Inr groups\<rparr>))) =
     map (\<lambda>g. cloudwatch_issue (logGroupName g))
       (filter (\<lambda>g. retentionInDays g = None) groups)"
  "log_groups_without_retention
     (fst (analyze_cloudwatch_logs (env\<lparr>describe_log_groups := Inr groups\<rparr>))) =
     map logGroupName (filter (\<lambda>g. retentionInDays g = None) groups)"
  by (simp_all add: analyze_cloudwatch_logs_def cloudwatch_loop_issues cloudwatch_loop_names
      cloudwatch_initial_def)

lemma first_probe_raises:
  "analyze_cloudtrail (env\<lparr>list_trails := Inl e\<rparr>) =
     (cloudtrail_initial\<lparr>issues := [cloudtrail_error_issue e]\<rparr>, [ListTrails])"
  "analyze_s3_logging (env\<lparr>list_buckets := Inl e\<rparr>) =
     (s3_initial\<lparr>issues := [s3_error_issue e]\<rparr>, [ListBuckets])"
  "analyze_cloudwatch_logs (env\<lparr>describe_log_groups := Inl e\<rparr>) =
     (cloudwatch_initial\<lparr>issues := [cloudwatch_error_issue e]\<rparr>, [DescribeLogGroups])"
  "analyze_rds_logging (env\<lparr>describe_db_instances := Inl e\<rparr>) =
     (rds_initial\<lparr>issues := [rds_error_issue e]\<rparr>, [DescribeDBInstances])"
  by (simp_all add: analyze_cloudtrail_def analyze_s3_logging_def analyze_cloudwatch_logs_def
      analyze_rds_logging_def append_issue_def cloudtrail_initial_def s3_initial_def
      cloudwatch_initial_def rds_initial_def)

text \<open>
  Claim C9. What each analyzer makes of a payload in which the feature is absent, whatever
  the other probes of the account do. When \<^verbatim>\<open>list_trails\<close> returns no trail, the CloudTrail
  finding holds the one issue HIGH / \<^verbatim>\<open>10.2.1-10.2.7\<close>. When \<^verbatim>\<open>list_buckets\<close> returns a
  list and every \<^verbatim>\<open>get_bucket_logging\<close> returns an answer, the S3 finding holds one issue
  MEDIUM / \<^verbatim>\<open>10.2.1\<close> for every bucket whose answer has no key \<^verbatim>\<open>LoggingEnabled\<close>, in
  order, and nothing else; when some \<^verbatim>\<open>get_bucket_logging\<close> raises and the \<^verbatim>\<open>except\<close> clause
  of line 132 raises on the class it names, as it does on the S3 client, the finding holds
  that issue for every such bucket before the first probe that raised, and then the error
  issue. When \<^verbatim>\<open>describe_log_groups\<close> returns a list, the CloudWatch finding holds one
  issue MEDIUM / \<^verbatim>\<open>10.5.1.2\<close> for every log group without the key \<^verbatim>\<open>retentionInDays\<close>, and
  nothing else; when it raises, as it does on the client of line 29, the finding holds the
  error issue alone. When \<^verbatim>\<open>describe_db_instances\<close> returns a list, the RDS finding holds
  one issue MEDIUM / \<^verbatim>\<open>10.2.1\<close> for every instance whose key \<^verbatim>\<open>EnableCloudwatchLogsExports\<close>
  is missing or holds an empty list, and nothing else; so it holds one for every instance
  when no instance has that key.
\<close>

theorem disabled_features_yield_table_issues:
  "analyze_cloudtrail (env\<lparr>list_trails := Inr []\<rparr>) =
     (cloudtrail_initial\<lparr>issues := [no_trails_issue]\<rparr>, [ListTrails]) \<and>
   severity no_trails_issue = ''HIGH'' \<and> pci_reference no_trails_issue = ''10.2.1-10.2.7'' \<and>
   issues (fst (analyze_s3_logging
     (env\<lparr>list_buckets := Inr buckets,
          get_bucket_logging := \<lambda>b. Inr (logging_enabled b)\<rparr>))) =
     map s3_issue (filter (\<lambda>b. \<not> logging_enabled b) buckets) \<and>
   buckets_without_logging (fst (analyze_s3_logging
     (env\<lparr>list_buckets := Inr buckets,
          get_bucket_logging := \<lambda>b. Inr (logging_enabled b)\<rparr>))) =
     filter (\<lambda>b. \<not> logging_enabled b) buckets \<and>
   issues (fst (analyze_s3_logging
     (env\<lparr>list_buckets := Inr buckets,
          NoSuchBucketLoggingConfiguration := Inl attribute_error\<rparr>))) =
     map s3_issue
       (filter (\<lambda>b. get_bucket_logging env b = Inr False)
          (takeWhile (\<lambda>b. raised (get_bucket_logging env b) = None) buckets)) @
     (case dropWhile (\<lambda>b. raised (get_bucket_logging env b) = None) buckets of
        [] \<Rightarrow> []
      | b # rest \<Rightarrow> [s3_error_issue attribute_error]) \<and>
   buckets_without_logging (fst (analyze_s3_logging
     (env\<lparr>list_buckets := Inr buckets,
          NoSuchBucketLoggingConfiguration := Inl attribute_error\<rparr>))) =
     filter (\<lambda>b. get_bucket_logging env b = Inr False)
       (takeWhile (\<lambda>b. raised (get_bucket_logging env b) = None) buckets) \<and>
   severity (s3_issue b) = ''MEDIUM'' \<and> pci_reference (s3_issue b) = ''10.2.1'' \<and>
   issues (fst (analyze_cloudwatch_logs (env\<lparr>describe_log_groups := Inr groups\<rparr>))) =
     map (\<lambda>g. cloudwatch_issue (logGroupName g))
       (filter (\<lambda>g. retentionInDays g = None) groups) \<and>
   log_groups_without_retention
     (fst (analyze_cloudwatch_logs (env\<lparr>describe_log_groups := Inr groups\<rparr>))) =
     map logGroupName (filter (\<lambda>g. retentionInDays g = None) groups) \<and>
   analyze_cloudwatch_logs (env\<lparr>describe_log_groups := Inl e\<rparr>) =
     (cloudwatch_initial\<lparr>issues := [cloudwatch_error_issue e]\<rparr>, [DescribeLogGroups]) \<and>
   severity (cloudwatch_issue g) = ''MEDIUM'' \<and>
   pci_reference (cloudwatch_issue g) = ''10.5.1.2'' \<and>
   issues (fst (analyze_rds_logging (env\<lparr>describe_db_instances := Inr ds\<rparr>))) =
     map (\<lambda>d. rds_issue (DBInstanceIdentifier d))
       (filter (\<lambda>d. EnableCloudwatchLogsExports d = None
                   \<or> EnableCloudwatchLogsExports d = Some []) ds) \<and>
   instances_without_logging
     (fst (analyze_rds_logging (env\<lparr>describe_db_instances := Inr ds\<rparr>))) =
     map DBInstanceIdentifier
       (filter (\<lambda>d. EnableCloudwatchLogsExports d = None
                   \<or> EnableCloudwatchLogsExports d = Some []) ds) \<and>
   issues (fst (analyze_rds_logging
     (env\<lparr>describe_db_instances :=
            Inr (map (\<lambda>d. d\<lparr>EnableCloudwatchLogsExports := None\<rparr>) ds)\<rparr>))) =
     map (\<lambda>d. rds_issue (DBInstanceIdentifier d)) ds \<and>
   severity (rds_issue d) = ''MEDIUM'' \<and> pci_reference (rds_issue d) = ''10.2.1''"
proof -
  have ct: "analyze_cloudtrail (env\<lparr>list_trails := Inr []\<rparr>) =
     (cloudtrail_initial\<lparr>issues := [no_trails_issue]\<rparr>, [ListTrails])"
    by (simp add: analyze_cloudtrail_def append_issue_def cloudtrail_initial_def)
  show ?thesis
    by (intro conjI ct analyze_s3_logging_payloads analyze_s3_logging_lookup_raises
        analyze_cloudwatch_logs_payload first_probe_raises analyze_rds_logging_payload
        issue_table)
qed

lemma error_issue_table:
  "severity (cloudtrail_error_issue e) = ''HIGH''"
  "description (cloudtrail_error_issue e) = ''Error analyzing CloudTrail: '' @ exc_text e"
  "severity (s3_error_issue e) = ''HIGH''"
  "description (s3_error_issue e) = ''Error analyzing S3 logging: '' @ exc_text e"
  "severity (cloudwatch_error_issue e) = ''HIGH''"
  "description (cloudwatch_error_issue e) = ''Error analyzing CloudWatch Logs: '' @ exc_text e"
  "severity (rds_error_issue e) = ''HIGH''"
  "description (rds_error_issue e) = ''Error analyzing RDS logging: '' @ exc_text e"
  by (simp_all add: cloudtrail_error_issue_def s3_error_issue_def cloudwatch_error_issue_def
      rds_error_issue_def error_issue_def)

lemma aborts_outcome:
  "aborts env ListTrails = outcome_of env ListTrails"
  "aborts env (GetTrail n) = outcome_of env (GetTrail n)"
  "aborts env (GetTrailStatus n) = outcome_of env (GetTrailStatus n)"
  "aborts env ListBuckets = outcome_of env ListBuckets"
  "aborts env DescribeLogGroups = outcome_of env DescribeLogGroups"
  "aborts env DescribeDBInstances = outcome_of env DescribeDBInstances"
  by (simp_all add: aborts_other)

text \<open>
  Claim C6, as stated, fails for the IAM analyzer: when both IAM probes raise
  \<^verbatim>\<open>AccessDenied\<close>, the finding holds two MEDIUM issues with fixed descriptions, none of
  them HIGH and none embedding the error text.
\<close>

theorem iam_failure_counterexample:
  "outcome_of denied_aws GenerateCredentialReport = Some access_denied \<and>
   outcome_of denied_aws ListAccessAnalyzers = Some access_denied \<and>
   map severity (issues (fst (analyze_iam_logging denied_aws))) = [''MEDIUM'', ''MEDIUM''] \<and>
   map description (issues (fst (analyze_iam_logging denied_aws))) =
     [''IAM credential reports not enabled'',
      ''IAM Access Analyzer not available or enabled'']"
  by (simp add: analyze_iam_logging_run denied_aws_def raised_def credential_report_issue_def
      access_analyzer_unavailable_issue_def)

text \<open>
  Claim C6, amended. No analyzer propagates an exception, and \<^verbatim>\<open>run_analysis\<close> runs the
  five analyzers in order whatever fails. For CloudTrail, S3, CloudWatch Logs and RDS, no
  call before the last call of the analyzer ends it, so a call that does is never retried
  and nothing of that service is called after it. The finding then holds the issues
  recorded before that call, followed by exactly one synthetic issue, HIGH, its
  description embedding the text of the exception that ended the analyzer; it holds the
  recorded issues and no synthetic one when the last call did not end the analyzer. For
  \<^verbatim>\<open>list_trails\<close>, \<^verbatim>\<open>get_trail\<close>, \<^verbatim>\<open>get_trail_status\<close>, \<^verbatim>\<open>list_buckets\<close>,
  \<^verbatim>\<open>describe_log_groups\<close> and \<^verbatim>\<open>describe_db_instances\<close> that exception is the one the probe
  raised, and when the first probe of a service raises, the finding holds that one issue
  and nothing else. The IAM analyzer always makes its two calls, and a call that raises
  yields one fixed MEDIUM issue without the error text.
\<close>

theorem probe_failures_become_issues:
  "(snd (analyze_cloudtrail env) \<noteq> [] \<and>
    hd (snd (analyze_cloudtrail env)) = ListTrails \<and>
    list_all (\<lambda>c. aborts env c = None) (butlast (snd (analyze_cloudtrail env))) \<and>
    synthetic_issues (fst (analyze_cloudtrail env)) =
      (case aborts env (last (snd (analyze_cloudtrail env))) of
         None \<Rightarrow> [] | Some e \<Rightarrow> [cloudtrail_error_issue e]) \<and>
    issues (fst (analyze_cloudtrail env)) =
      cloudtrail_recorded env @
      (case aborts env (last (snd (analyze_cloudtrail env))) of
         None \<Rightarrow> [] | Some e \<Rightarrow> [cloudtrail_error_issue e])) \<and>
   (snd (analyze_s3_logging env) \<noteq> [] \<and>
    hd (snd (analyze_s3_logging env)) = ListBuckets \<and>
    list_all (\<lambda>c. aborts env c = None) (butlast (snd (analyze_s3_logging env))) \<and>
    synthetic_issues (fst (analyze_s3_logging env)) =
      (case aborts env (last (snd (analyze_s3_logging env))) of
         None \<Rightarrow> [] | Some e \<Rightarrow> [s3_error_issue e]) \<and>
    issues (fst (analyze_s3_logging env)) =
      s3_recorded env @
      (case aborts env (last (snd (analyze_s3_logging env))) of
         None \<Rightarrow> [] | Some e \<Rightarrow> [s3_error_issue e])) \<and>
   (snd (analyze_cloudwatch_logs env) = [DescribeLogGroups] \<and>
    synthetic_issues (fst (analyze_cloudwatch_logs env)) =
      (case aborts env DescribeLogGroups of
         None \<Rightarrow> [] | Some e \<Rightarrow> [cloudwatch_error_issue e]) \<and>
    issues (fst (analyze_cloudwatch_logs env)) =
      cloudwatch_recorded env @
      (case aborts env DescribeLogGroups of
         None \<Rightarrow> [] | Some e \<Rightarrow> [cloudwatch_error_issue e])) \<and>
   (snd (analyze_rds_logging env) = [DescribeDBInstances] \<and>
    synthetic_issues (fst (analyze_rds_logging env)) =
      (case aborts env DescribeDBInstances of
         None \<Rightarrow> [] | Some e \<Rightarrow> [rds_error_issue e]) \<and>
    issues (fst (analyze_rds_logging env)) =
      rds_recorded env @
      (case aborts env DescribeDBInstances of
         None \<Rightarrow> [] | Some e \<Rightarrow> [rds_error_issue e])) \<and>
   (snd (analyze_iam_logging env) = [GenerateCredentialReport, ListAccessAnalyzers] \<and>
    issues (fst (analyze_iam_logging env)) =
      (case generate_credential_report env of
         Inl _ \<Rightarrow> [credential_report_issue] | Inr _ \<Rightarrow> []) @
      (case list_access_analyzers env of
         Inl _ \<Rightarrow> [access_analyzer_unavailable_issue]
       | Inr analyzers \<Rightarrow> if analyzers = [] then [access_analyzer_issue] else [])) \<and>
   (snd (run_analysis env now) =
      snd (analyze_cloudtrail env) @ snd (analyze_s3_logging env) @
      snd (analyze_cloudwatch_logs env) @ snd (analyze_rds_logging env) @
      snd (analyze_iam_logging env) \<and>
    cloudtrail (fst (fst (run_analysis env now))) = fst (analyze_cloudtrail env) \<and>
    s3_logging (fst (fst (run_analysis env now))) = fst (analyze_s3_logging env) \<and>
    cloudwatch_logs (fst (fst (run_analysis env now))) = fst (analyze_cloudwatch_logs env) \<and>
    rds_logging (fst (fst (run_analysis env now))) = fst (analyze_rds_logging env) \<and>
    iam_logging (fst (fst (run_analysis env now))) = fst (analyze_iam_logging env)) \<and>
   (aborts env ListTrails = outcome_of env ListTrails \<and>
    aborts env (GetTrail n) = outcome_of env (GetTrail n) \<and>
    aborts env (GetTrailStatus n) = outcome_of env (GetTrailStatus n) \<and>
    aborts env ListBuckets = outcome_of env ListBuckets \<and>
    aborts env DescribeLogGroups = outcome_of env DescribeLogGroups \<and>
    aborts env DescribeDBInstances = outcome_of env DescribeDBInstances) \<and>
   (analyze_cloudtrail (env\<lparr>list_trails := Inl e\<rparr>) =
      (cloudtrail_initial\<lparr>issues := [cloudtrail_error_issue e]\<rparr>, [ListTrails]) \<and>
    analyze_s3_logging (env\<lparr>list_buckets := Inl e\<rparr>) =
      (s3_initial\<lparr>issues := [s3_error_issue e]\<rparr>, [ListBuckets]) \<and>
    analyze_cloudwatch_logs (env\<lparr>describe_log_groups := Inl e\<rparr>) =
      (cloudwatch_initial\<lparr>issues := [cloudwatch_error_issue e]\<rparr>, [DescribeLogGroups]) \<and>
    analyze_rds_logging (env\<lparr>describe_db_instances := Inl e\<rparr>) =
      (rds_initial\<lparr>issues := [rds_error_issue e]\<rparr>, [DescribeDBInstances])) \<and>
   (severity (cloudtrail_error_issue e) = ''HIGH'' \<and>
    description (cloudtrail_error_issue e) = ''Error analyzing CloudTrail: '' @ exc_text e \<and>
    severity (s3_error_issue e) = ''HIGH'' \<and>
    description (s3_error_issue e) = ''Error analyzing S3 logging: '' @ exc_text e \<and>
    severity (cloudwatch_error_issue e) = ''HIGH'' \<and>
    description (cloudwatch_error_issue e) =
      ''Error analyzing CloudWatch Logs: '' @ exc_text e \<and>
    severity (rds_error_issue e) = ''HIGH'' \<and>
    description (rds_error_issue e) = ''Error analyzing RDS logging: '' @ exc_text e) \<and>
   (severity credential_report_issue = ''MEDIUM'' \<and>
    severity access_analyzer_issue = ''MEDIUM'' \<and>
    severity access_analyzer_unavailable_issue = ''MEDIUM'')"
proof -
  have iam: "severity credential_report_issue = ''MEDIUM''"
    "severity access_analyzer_issue = ''MEDIUM''"
    "severity access_analyzer_unavailable_issue = ''MEDIUM''"
    by (simp_all add: credential_report_issue_def access_analyzer_issue_def
        access_analyzer_unavailable_issue_def)
  note ct = analyze_cloudtrail_run [of env]
  note s3 = analyze_s3_logging_run [of env]
  note cw = analyze_cloudwatch_logs_run [of env]
  note rds = analyze_rds_logging_run [of env]
  note ia = analyze_iam_logging_run [of env]
  show ?thesis
    by (intro conjI ct [THEN conjunct1]
        ct [THEN conjunct2, THEN conjunct1]
        ct [THEN conjunct2, THEN conjunct2, THEN conjunct1]
        ct [THEN conjunct2, THEN conjunct2, THEN conjunct2, THEN conjunct1]
        ct [THEN conjunct2, THEN conjunct2, THEN conjunct2, THEN conjunct2]
        s3 [THEN conjunct1]
        s3 [THEN conjunct2, THEN conjunct1]
        s3 [THEN conjunct2, THEN conjunct2, THEN conjunct1]
        s3 [THEN conjunct2, THEN conjunct2, THEN conjunct2, THEN conjunct1]
        s3 [THEN conjunct2, THEN conjunct2, THEN conjunct2, THEN conjunct2]
        cw [THEN conjunct1] cw [THEN conjunct2, THEN conjunct1]
        cw [THEN conjunct2, THEN conjunct2]
        rds [THEN conjunct1] rds [THEN conjunct2, THEN conjunct1]
        rds [THEN conjunct2, THEN conjunct2]
        ia [THEN conjunct1] ia [THEN conjunct2]
        run_analysis_parts aborts_outcome first_probe_raises error_issue_table iam)
qed

text \<open>
  A run on the example account. The probe of the third bucket raises \<^verbatim>\<open>AccessDenied\<close>;
  the \<^verbatim>\<open>except\<close> clause of line 132 then raises on the class it names, and it is the text
  of that exception, not of the probe's, that the S3 finding reports.
\<close>

lemma example_run:
  "snd (run_analysis example_aws now) =
     [ListTrails, GetTrail ''main'', GetTrailStatus ''main'', ListBuckets,
      GetBucketLogging ''a'', GetBucketLogging ''b'', GetBucketLogging ''c'',
      DescribeLogGroups, DescribeDBInstances, GenerateCredentialReport,
      ListAccessAnalyzers]"
  "issues (s3_logging (fst (fst (run_analysis example_aws now)))) =
     [s3_issue ''b'', s3_error_issue no_such_attribute]"
  "outcome_of example_aws (GetBucketLogging ''c'') = Some access_denied"
  "description (s3_error_issue no_such_attribute) =
     ''Error analyzing S3 logging: '' @ exc_text no_such_attribute"
  "total_issues (fst (fst (run_analysis example_aws now))) = 6"
  by (simp_all add: run_analysis_def analyze_cloudtrail_def analyze_s3_logging_def
      analyze_cloudwatch_logs_def analyze_rds_logging_def analyze_iam_logging_def
      iam_body_def example_aws_def access_denied_def without_logging_def has_log_exports_def
      cloudtrail_initial_def s3_initial_def cloudwatch_initial_def rds_initial_def
      iam_initial_def Let_def raised_def s3_error_issue_def error_issue_def)

section \<open>Properties of the remediation script generator\<close>

lemma then_do_raise: "then_do (raise e) k = raise e"
  by (rule ext) (simp add: then_do_def raise_def)

lemma then_do_done_with: "then_do (done_with a) k = k a"
  by (rule ext) (simp add: then_do_def done_with_def)

lemma getattr_init:
  "getattr (init env config) ''templates'' = Inr (Attribute (Templates (load_templates env)))"
  "getattr (init env config) ''region'' = Inl (AttributeError ''region'')"
  "getattr (init env config) ''account_id'' = Inl (AttributeError ''account_id'')"
  by (simp_all add: getattr_def init_def class_names_def)

lemma attribute_region: "attribute (init env config) ''region'' = raise (AttributeError ''region'')"
  by (simp add: attribute_def getattr_init)

lemma template_of_init:
  "template_of (init env config) ''cloudtrail_setup'' = done_with (template_body env ''cloudtrail_setup'')"
  "template_of (init env config) ''s3_logging_setup'' = done_with (template_body env ''s3_logging_setup'')"
  "template_of (init env config) ''cloudwatch_retention_setup''
     = done_with (template_body env ''cloudwatch_retention_setup'')"
  "template_of (init env config) ''rds_logging_setup'' = done_with (template_body env ''rds_logging_setup'')"
  "template_of (init env config) ''iam_monitoring_setup''
     = done_with (template_body env ''iam_monitoring_setup'')"
  "template_of (init env config) ''monitoring_alerts_setup''
     = done_with (template_body env ''monitoring_alerts_setup'')"
  "template_of (init env config) ''cost_optimization_setup''
     = done_with (template_body env ''cost_optimization_setup'')"
  by (simp_all add: template_of_def attribute_def getattr_init then_do_done_with load_templates_def)

lemma generators_raise:
  "generate_cloudtrail_script_file (init env config) findings output_dir env
     = raise (AttributeError ''region'')"
  "generate_s3_logging_script_file (init env config) buckets output_dir env
     = raise (AttributeError ''region'')"
  "generate_iam_monitoring_script (init env config) output_dir env = raise (AttributeError ''region'')"
  "generate_monitoring_alerts_script (init env config) output_dir env
     = raise (AttributeError ''region'')"
  by (simp_all add: generate_cloudtrail_script_file_def generate_s3_logging_script_file_def
      generate_iam_monitoring_script_def generate_monitoring_alerts_script_def template_of_init
      attribute_region then_do_done_with then_do_raise)

lemma generators_write:
  "generate_cloudwatch_retention_script_file (init env config) groups output_dir env
     = write_script env output_dir ''setup_cloudwatch_retention.sh''
         (render env (template_body env ''cloudwatch_retention_setup'')
            [(''timestamp'', Str (isoformat_now env)), (''pci_reference'', Str ''10.5.1.2''),
             (''log_groups'', Strs groups), (''retention_days'', Num 365)])"
  "generate_rds_logging_script_file (init env config) insts output_dir env
     = write_script env output_dir ''setup_rds_logging.sh''
         (render env (template_body env ''rds_logging_setup'')
            [(''timestamp'', Str (isoformat_now env)), (''pci_reference'', Str ''10.2.1''),
             (''instances'', Strs insts)])"
  by (simp_all add: generate_cloudwatch_retention_script_file_def
      generate_rds_logging_script_file_def template_of_init then_do_done_with)

lemma generate_all_scripts_init:
  "region_or_write_error env (fst (generate_all_scripts (init env config) findings output_dir env fs))"
  by (simp add: generate_all_scripts_def generators_raise generators_write then_do_def raise_def
      done_with_def write_script_def Let_def region_or_write_error_def)

lemma generate_all_scripts_writable:
  "fst (generate_all_scripts (init env config) findings output_dir (env\<lparr>writable := \<lambda>_. True\<rparr>) fs)
     = Inl (AttributeError ''region'')"
proof -
  have same: "init env config = init (env\<lparr>writable := \<lambda>_. True\<rparr>) config"
    by (simp add: init_def load_templates_def)
  show ?thesis
    unfolding same
    by (simp add: generate_all_scripts_def generators_raise generators_write then_do_def raise_def
        done_with_def write_script_def Let_def)
qed

lemma main_fails: "exit_code (main env loaded output_dir fs) = 1"
proof -
  have "exit_code (case generate_all_scripts (init env config) findings output_dir env fs of
                  (Inl e, fs') \<Rightarrow> failed env e fs'
                | (Inr generated_scripts, fs') \<Rightarrow> ok generated_scripts fs') = 1" for config findings ok
    using generate_all_scripts_init [of env config findings output_dir fs]
    by (cases "generate_all_scripts (init env config) findings output_dir env fs")
       (auto simp add: region_or_write_error_def failed_def split: sum.splits py_error.splits)
  then show ?thesis
    by (simp add: main_def failed_def printed_before_def split: sum.splits)
qed

text \<open>
  Claim C10. \<^verbatim>\<open>RemediationScriptGenerator.generate_all_scripts\<close> never completes. The
  constructor sets \<^verbatim>\<open>config\<close> and \<^verbatim>\<open>templates\<close> only, so reading \<^verbatim>\<open>self.region\<close> or
  \<^verbatim>\<open>self.account_id\<close> of a constructed generator raises \<^verbatim>\<open>AttributeError\<close>. The four
  generators that read \<^verbatim>\<open>self.region\<close> (CloudTrail, S3, IAM monitoring, monitoring alerts)
  raise it before they render or write anything. For all findings of the shape the
  analyzers produce, every output directory and every state of the file system,
  \<^verbatim>\<open>generate_all_scripts\<close> ends in an exception: the \<^verbatim>\<open>AttributeError\<close> for \<^verbatim>\<open>region\<close>, or,
  when the CloudWatch or RDS script that comes before the IAM one could not be written,
  the error of that write; where every file can be written it is the \<^verbatim>\<open>AttributeError\<close>.
  The command-line entry point therefore exits with status 1 whatever it is given.
\<close>

theorem generate_all_scripts_raises_attribute_error:
  "getattr (init env config) ''region'' = Inl (AttributeError ''region'')
   \<and> getattr (init env config) ''account_id'' = Inl (AttributeError ''account_id'')
   \<and> generate_iam_monitoring_script (init env config) output_dir env fs
       = (Inl (AttributeError ''region''), fs)
   \<and> generate_monitoring_alerts_script (init env config) output_dir env fs
       = (Inl (AttributeError ''region''), fs)
   \<and> generate_cloudtrail_script_file (init env config) findings output_dir env fs
       = (Inl (AttributeError ''region''), fs)
   \<and> generate_s3_logging_script_file (init env config) buckets output_dir env fs
       = (Inl (AttributeError ''region''), fs)
   \<and> region_or_write_error env
         (fst (generate_all_scripts (init env config) findings output_dir env fs))
   \<and> fst (generate_all_scripts (init env config) findings output_dir
              (env\<lparr>writable := \<lambda>_. True\<rparr>) fs)
       = Inl (AttributeError ''region'')
   \<and> exit_code (main env loaded output_dir fs) = 1"
  by (simp add: getattr_init generators_raise raise_def generate_all_scripts_init
      generate_all_scripts_writable main_fails)

end
